theory Spec2Isabelle
  imports Complex_Main "HOL-Library.AList"
begin

section \<open>Numbers\<close>

text \<open>
  The recommendation engine computes with Python \<open>int\<close> and \<open>float\<close> values. Both are
  embedded as exact rationals: \<open>+\<close>, \<open>-\<close>, \<open>*\<close>, \<open>/\<close> and the comparisons are the
  exact ones, and constants such as \<open>0.7\<close> are the decimal fractions the source
  writes. The binary rounding of IEEE doubles is left out, except in the asset
  allocation, which is modelled a second time in double precision further down;
  \<open>nan\<close> and infinite values in the market data are left out altogether.
\<close>

text \<open>
  Python's \<open>round(x, ndigits)\<close>: to the nearest multiple of \<open>10 ** -ndigits\<close>, a tie
  going to the even neighbour. \<open>ndigits\<close> may be negative (\<open>round(x, -2)\<close> rounds to
  hundreds).
\<close>

definition round_half_even :: "rat \<Rightarrow> int" where
  "round_half_even x =
     (let f = \<lfloor>x\<rfloor>; d = x - of_int f
      in if d < 1 / 2 then f else if 1 / 2 < d then f + 1 else if even f then f else f + 1)"

definition py_round :: "rat \<Rightarrow> int \<Rightarrow> rat" where
  "py_round x ndigits =
     (if 0 \<le> ndigits then of_int (round_half_even (x * 10 ^ nat ndigits)) / 10 ^ nat ndigits
      else of_int (round_half_even (x / 10 ^ nat (- ndigits))) * 10 ^ nat (- ndigits))"

text \<open>\<open>float('inf')\<close> is the only non-finite value the engine itself produces.\<close>

datatype ratio = Finite rat | Infinity

fun ratio_gt :: "ratio \<Rightarrow> rat \<Rightarrow> bool" where
  "ratio_gt (Finite q) c = (c < q)"
| "ratio_gt Infinity c = True"

section \<open>Financial profile, investment capacity, asset allocation\<close>

text \<open>
  The canonical profile the scorers receive: five amounts, the horizon in years and the
  risk score, the last two being Python \<open>int\<close>s on every path that builds a profile.
\<close>

record profile =
  monthly_income :: rat
  monthly_expense :: rat
  current_savings :: rat
  existing_investments :: rat
  current_debt :: rat
  investment_horizon :: int
  risk_tolerance :: int

record capacity =
  monthly_surplus :: rat
  debt_to_income_ratio :: ratio
  net_worth :: rat
  emergency_fund_requirement :: rat
  current_savings_surplus :: rat
  recommended_monthly_investment :: rat
  lump_sum_investment_capacity :: rat
  debt_payment_recommendation :: rat

definition calculate_investment_capacity :: "profile \<Rightarrow> capacity" where
  "calculate_investment_capacity p =
     (let surplus = monthly_income p - monthly_expense p;
          dti = (if 0 < monthly_income p then Finite (current_debt p / monthly_income p)
                 else Infinity);
          worth = current_savings p + existing_investments p - current_debt p;
          emergency = monthly_expense p * 6;
          savings_surplus = max 0 (current_savings p - emergency);
          (invest, pay) = (if ratio_gt dti (1 / 2)
                           then (surplus * (3 / 10), surplus * (7 / 10))
                           else (surplus * (7 / 10), surplus * (3 / 10)));
          lump = savings_surplus * (8 / 10)
      in \<lparr> monthly_surplus = surplus,
           debt_to_income_ratio = dti,
           net_worth = worth,
           emergency_fund_requirement = emergency,
           current_savings_surplus = savings_surplus,
           recommended_monthly_investment = max 0 invest,
           lump_sum_investment_capacity = max 0 lump,
           debt_payment_recommendation = max 0 pay \<rparr>)"

record allocation =
  equity :: rat
  large_cap :: rat
  mid_cap :: rat
  small_cap :: rat
  debt :: rat
  govt_bonds :: rat
  corporate_bonds :: rat
  commodities :: rat

text \<open>
  \<open>determine_asset_allocation\<close> in three steps: the percentages before the
  renormalisation (\<open>raw_allocation\<close>: equity, debt, commodity), the proportional
  renormalisation (\<open>renormalise\<close>), and the rounded result with its breakdowns.
  This is the computation in exact arithmetic, where \<open>(e / total) * 100\<close> gives
  back \<open>e\<close> for a total of 100; what the doubles of the source make of it is
  \<open>renormalise_double\<close> below.
\<close>

definition raw_allocation :: "profile \<Rightarrow> rat \<times> rat \<times> rat" where
  "raw_allocation p =
     (let r = risk_tolerance p; h = investment_horizon p;
          equity_base = min (30 + r * 5) 90;
          horizon_factor = min (of_int h / 2) (5 :: rat);
          equity_allocation = min (of_int equity_base + horizon_factor * 2) 90;
          debt_allocation = 100 - equity_allocation - 5;
          (equity_allocation, debt_allocation) =
             (if h < 3
              then (let e = max (equity_allocation * (7 / 10)) 20 in (e, 100 - e - 5))
              else (equity_allocation, debt_allocation));
          commodity_allocation = 5
      in (equity_allocation, debt_allocation, commodity_allocation))"

definition renormalise :: "rat \<times> rat \<times> rat \<Rightarrow> rat \<times> rat \<times> rat" where
  "renormalise a =
     (case a of (e, d, c) \<Rightarrow>
        (let total = e + d + c in ((e / total) * 100, (d / total) * 100, (c / total) * 100)))"

definition determine_asset_allocation :: "profile \<Rightarrow> allocation" where
  "determine_asset_allocation p =
     (case renormalise (raw_allocation p) of (e, d, c) \<Rightarrow>
        (let r = of_int (risk_tolerance p) :: rat;
             large = e * (7 / 10 - r / 30);
             mid = e * (2 / 10 + r / 60);
             small = e * (1 / 10 + r / 60);
             govt = d * (4 / 10);
             corporate = d * (6 / 10)
         in \<lparr> equity = py_round e 2,
              large_cap = py_round large 2,
              mid_cap = py_round mid 2,
              small_cap = py_round small 2,
              debt = py_round d 2,
              govt_bonds = py_round govt 2,
              corporate_bonds = py_round corporate 2,
              commodities = py_round c 2 \<rparr>))"

section \<open>Dynamically typed values and dictionaries\<close>

text \<open>
  The market-data records are Python dictionaries from field names to values that may
  be \<open>None\<close>, a number or a string. A dictionary is an association list in insertion
  order; \<open>AList.update\<close> is the assignment \<open>d[k] = v\<close> (an existing key keeps its
  position, a new key goes to the end).
\<close>

datatype pyval = VNone | VNum rat | VStr string

type_synonym pydict = "(string \<times> pyval) list"

datatype py_error = ValueError | TypeError

text \<open>\<open>d.get(k)\<close> and \<open>d.get(k, default)\<close>.\<close>

definition dict_get :: "pydict \<Rightarrow> string \<Rightarrow> pyval" where
  "dict_get d k = (case map_of d k of None \<Rightarrow> VNone | Some v \<Rightarrow> v)"

definition dict_get_default :: "pydict \<Rightarrow> string \<Rightarrow> pyval \<Rightarrow> pyval" where
  "dict_get_default d k dflt = (case map_of d k of None \<Rightarrow> dflt | Some v \<Rightarrow> v)"

text \<open>
  \<open>float(v)\<close>. What \<open>float\<close> makes of a string is the language's business, not the
  repository's: it is the parameter \<open>pf\<close>, \<open>None\<close> standing for the \<open>ValueError\<close> of
  a string that is no number.
\<close>

fun py_float :: "(string \<Rightarrow> rat option) \<Rightarrow> pyval \<Rightarrow> py_error + rat" where
  "py_float pf VNone = Inl TypeError"
| "py_float pf (VNum q) = Inr q"
| "py_float pf (VStr s) = (case pf s of None \<Rightarrow> Inl ValueError | Some q \<Rightarrow> Inr q)"

text \<open>
  An instance of \<open>pf\<close> for evaluations: plain decimal literals, an optional sign, digits
  and an optional fraction. It agrees with \<open>float\<close> on such strings and on strings
  without any digit.
\<close>

definition digit_val :: "char \<Rightarrow> nat option" where
  "digit_val c =
     (let n = of_char c :: nat in if 48 \<le> n \<and> n \<le> 57 then Some (n - 48) else None)"

fun digits_val :: "nat \<Rightarrow> string \<Rightarrow> nat option" where
  "digits_val acc [] = Some acc"
| "digits_val acc (c # cs) =
     (case digit_val c of None \<Rightarrow> None | Some d \<Rightarrow> digits_val (10 * acc + d) cs)"

definition unsigned_decimal :: "string \<Rightarrow> rat option" where
  "unsigned_decimal s =
     (let ip = takeWhile (\<lambda>c. c \<noteq> CHR ''.'') s;
          fp = drop (Suc (length ip)) s
      in if ip = [] \<and> fp = [] then None
         else (case (digits_val 0 ip, digits_val 0 fp) of
                 (Some i, Some f) \<Rightarrow> Some (of_nat i + of_nat f / 10 ^ length fp)
               | _ \<Rightarrow> None))"

fun decimal_float :: "string \<Rightarrow> rat option" where
  "decimal_float [] = None"
| "decimal_float (c # cs) =
     (if c = CHR ''-'' then map_option uminus (unsigned_decimal cs)
      else if c = CHR ''+'' then unsigned_decimal cs
      else unsigned_decimal (c # cs))"

text \<open>\<open>int(x)\<close> of a number truncates towards zero.\<close>

definition py_int :: "rat \<Rightarrow> int" where
  "py_int q = (if 0 \<le> q then \<lfloor>q\<rfloor> else \<lceil>q\<rceil>)"

text \<open>\<open>needle in hay\<close> on strings, and \<open>str.lower\<close> on ASCII letters.\<close>

fun starts_with :: "string \<Rightarrow> string \<Rightarrow> bool" where
  "starts_with [] ys = True"
| "starts_with (x # xs) [] = False"
| "starts_with (x # xs) (y # ys) = (x = y \<and> starts_with xs ys)"

fun py_in :: "string \<Rightarrow> string \<Rightarrow> bool" where
  "py_in needle [] = (needle = [])"
| "py_in needle (y # ys) = (starts_with needle (y # ys) \<or> py_in needle ys)"

definition lower_char :: "char \<Rightarrow> char" where
  "lower_char c =
     (let n = of_char c :: nat in if 65 \<le> n \<and> n \<le> 90 then char_of (n + 32) else c)"

definition py_lower :: "string \<Rightarrow> string" where
  "py_lower s = map lower_char s"

section \<open>Profile normalisation\<close>

text \<open>
  \<open>generate_stock_recommendations\<close> (and its two siblings for mutual funds and SIPs, with
  the same lines) turns the \<open>risk_tolerance\<close> of the incoming profile dictionary into the
  number \<open>risk_value\<close>: a string goes through the table, anything else through \<open>int\<close>.
\<close>

definition risk_table :: "(string \<times> int) list" where
  "risk_table =
     [(''low'', 3), (''conservative'', 3), (''medium'', 5), (''moderate'', 5),
      (''high'', 8), (''aggressive'', 8)]"

definition risk_value :: "pydict \<Rightarrow> py_error + int" where
  "risk_value profile_dict =
     (case dict_get_default profile_dict ''risk_tolerance'' (VStr ''moderate'') of
        VStr s \<Rightarrow> Inr (case map_of risk_table (py_lower s) of None \<Rightarrow> 5 | Some v \<Rightarrow> v)
      | VNum q \<Rightarrow> Inr (py_int q)
      | VNone \<Rightarrow> Inl TypeError)"

text \<open>
  \<open>get_user_financial_profile\<close>, the interactive collection of a profile, validates the
  number it has read: a value outside 1..10 is replaced by the nearest bound.
\<close>

definition validated_risk_tolerance :: "int \<Rightarrow> int" where
  "validated_risk_tolerance r = (if r < 1 \<or> 10 < r then max 1 (min r 10) else r)"

section \<open>Scores and reasons\<close>

text \<open>
  A scorer accumulates a score and a list of reasons. A reason is the text of the
  source's format string together with the values it interpolates; rendering the
  values into the text is not part of the model.
\<close>

type_synonym reason = "string \<times> pyval list"

type_synonym acc = "rat \<times> reason list"

definition add_points :: "rat \<Rightarrow> reason \<Rightarrow> acc \<Rightarrow> acc" where
  "add_points n r a = (fst a + n, snd a @ [r])"

text \<open>\<open>v is not None and v != ""\<close>.\<close>

definition present :: "pyval \<Rightarrow> bool" where
  "present v = (v \<noteq> VNone \<and> v \<noteq> VStr [])"

section \<open>Stock scorer: fundamental phase\<close>

text \<open>
  Each signal of \<open>recommend_stocks\<close> reads one or two fields of the fundamental record
  \<open>fund\<close>. Its \<open>float\<close> conversions come first inside a
  \<open>try ... except (ValueError, TypeError): pass\<close>, so a failed conversion leaves the score
  and the reasons as they were. A subscript \<open>fund[k]\<close> is only reached behind a guard
  \<open>fund.get(k) is not None\<close>, where it equals \<open>fund.get(k)\<close>.
\<close>

definition pe_signal :: "(string \<Rightarrow> rat option) \<Rightarrow> pydict \<Rightarrow> acc \<Rightarrow> acc" where
  "pe_signal pf fund a =
     (if present (dict_get fund ''pe_ratio'') then
        (case py_float pf (dict_get fund ''pe_ratio'') of
           Inl _ \<Rightarrow> a
         | Inr pe_ratio \<Rightarrow>
             if 5 < pe_ratio \<and> pe_ratio < 20
             then add_points 4 (''Attractive P/E ratio of {pe_ratio:.2f}'', [VNum pe_ratio]) a
             else if 20 \<le> pe_ratio \<and> pe_ratio < 30
             then add_points 2 (''Reasonable P/E ratio of {pe_ratio:.2f}'', [VNum pe_ratio]) a
             else if 30 \<le> pe_ratio \<and> pe_ratio < 40
             then add_points 1 (''P/E ratio of {pe_ratio:.2f}'', [VNum pe_ratio]) a
             else a)
      else a)"

definition industry_pe_signal :: "(string \<Rightarrow> rat option) \<Rightarrow> pydict \<Rightarrow> acc \<Rightarrow> acc" where
  "industry_pe_signal pf fund a =
     (if dict_get fund ''pe_ratio'' \<noteq> VNone \<and> dict_get fund ''industry_pe'' \<noteq> VNone then
        (case py_float pf (dict_get fund ''pe_ratio'') of
           Inl _ \<Rightarrow> a
         | Inr pe_ratio \<Rightarrow>
             (case py_float pf (dict_get fund ''industry_pe'') of
                Inl _ \<Rightarrow> a
              | Inr industry_pe \<Rightarrow>
                  if pe_ratio < industry_pe * (8 / 10)
                  then add_points 4
                         (''P/E ratio significantly below industry average ({pe_ratio:.2f} vs {industry_pe:.2f})'',
                          [VNum pe_ratio, VNum industry_pe]) a
                  else if pe_ratio < industry_pe
                  then add_points 2
                         (''P/E ratio below industry average ({pe_ratio:.2f} vs {industry_pe:.2f})'',
                          [VNum pe_ratio, VNum industry_pe]) a
                  else a))
      else a)"

definition roe_signal :: "(string \<Rightarrow> rat option) \<Rightarrow> pydict \<Rightarrow> acc \<Rightarrow> acc" where
  "roe_signal pf fund a =
     (if present (dict_get fund ''roe'') then
        (case py_float pf (dict_get fund ''roe'') of
           Inl _ \<Rightarrow> a
         | Inr roe \<Rightarrow>
             if 20 < roe then add_points 5 (''Excellent ROE of {roe:.2f}%'', [VNum roe]) a
             else if 15 < roe then add_points 4 (''Strong ROE of {roe:.2f}%'', [VNum roe]) a
             else if 10 < roe then add_points 3 (''Good ROE of {roe:.2f}%'', [VNum roe]) a
             else if 5 < roe then add_points 1 (''Positive ROE of {roe:.2f}%'', [VNum roe]) a
             else a)
      else a)"

definition debt_to_equity_signal :: "(string \<Rightarrow> rat option) \<Rightarrow> pydict \<Rightarrow> acc \<Rightarrow> acc" where
  "debt_to_equity_signal pf fund a =
     (if present (dict_get fund ''debt_to_equity'') then
        (case py_float pf (dict_get fund ''debt_to_equity'') of
           Inl _ \<Rightarrow> a
         | Inr debt_to_equity \<Rightarrow>
             if debt_to_equity < 3 / 10
             then add_points 4
                    (''Exceptionally low debt-to-equity ratio of {debt_to_equity:.2f}'',
                     [VNum debt_to_equity]) a
             else if debt_to_equity < 6 / 10
             then add_points 3
                    (''Very low debt-to-equity ratio of {debt_to_equity:.2f}'',
                     [VNum debt_to_equity]) a
             else if debt_to_equity < 1
             then add_points 2
                    (''Good debt-to-equity ratio of {debt_to_equity:.2f}'', [VNum debt_to_equity]) a
             else if debt_to_equity < 15 / 10
             then add_points 1
                    (''Reasonable debt-to-equity ratio of {debt_to_equity:.2f}'',
                     [VNum debt_to_equity]) a
             else a)
      else a)"

definition eps_signal :: "(string \<Rightarrow> rat option) \<Rightarrow> pydict \<Rightarrow> acc \<Rightarrow> acc" where
  "eps_signal pf fund a =
     (if present (dict_get fund ''eps'') then
        (case py_float pf (dict_get fund ''eps'') of
           Inl _ \<Rightarrow> a
         | Inr eps \<Rightarrow>
             if 50 < eps then add_points 4 (''High EPS of {eps:.2f}'', [VNum eps]) a
             else if 20 < eps then add_points 3 (''Good EPS of {eps:.2f}'', [VNum eps]) a
             else if 10 < eps then add_points 2 (''Positive EPS of {eps:.2f}'', [VNum eps]) a
             else a)
      else a)"

definition dividend_yield_signal :: "(string \<Rightarrow> rat option) \<Rightarrow> pydict \<Rightarrow> acc \<Rightarrow> acc" where
  "dividend_yield_signal pf fund a =
     (if present (dict_get fund ''dividend_yield'') then
        (case py_float pf (dict_get fund ''dividend_yield'') of
           Inl _ \<Rightarrow> a
         | Inr div_yield \<Rightarrow>
             if 4 < div_yield
             then add_points 3 (''Excellent dividend yield of {div_yield:.2f}%'', [VNum div_yield]) a
             else if 2 < div_yield
             then add_points 2 (''Good dividend yield of {div_yield:.2f}%'', [VNum div_yield]) a
             else if 1 < div_yield
             then add_points 1 (''Positive dividend yield of {div_yield:.2f}%'', [VNum div_yield]) a
             else a)
      else a)"

definition profit_growth_signal :: "(string \<Rightarrow> rat option) \<Rightarrow> pydict \<Rightarrow> acc \<Rightarrow> acc" where
  "profit_growth_signal pf fund a =
     (if present (dict_get fund ''profit_growth'') then
        (case py_float pf (dict_get fund ''profit_growth'') of
           Inl _ \<Rightarrow> a
         | Inr profit_growth \<Rightarrow>
             if 30 < profit_growth
             then add_points 5
                    (''Exceptional profit growth of {profit_growth:.2f}%'', [VNum profit_growth]) a
             else if 20 < profit_growth
             then add_points 4
                    (''Strong profit growth of {profit_growth:.2f}%'', [VNum profit_growth]) a
             else if 10 < profit_growth
             then add_points 3
                    (''Good profit growth of {profit_growth:.2f}%'', [VNum profit_growth]) a
             else if 5 < profit_growth
             then add_points 1
                    (''Positive profit growth of {profit_growth:.2f}%'', [VNum profit_growth]) a
             else a)
      else a)"

text \<open>
  The market-cap signal also sets \<open>market_cap_category\<close>, which stays \<open>"Unknown"\<close> when
  the field is missing or does not convert.
\<close>

definition market_cap_signal ::
  "(string \<Rightarrow> rat option) \<Rightarrow> profile \<Rightarrow> pydict \<Rightarrow> acc \<Rightarrow> string \<times> acc" where
  "market_cap_signal pf p fund a =
     (if present (dict_get fund ''market_cap'') then
        (case py_float pf (dict_get fund ''market_cap'') of
           Inl _ \<Rightarrow> (''Unknown'', a)
         | Inr market_cap \<Rightarrow>
             (let market_cap_crores = market_cap / 10000000;
                  r = risk_tolerance p
              in if 50000 < market_cap_crores
                 then (''Large Cap'',
                       if r \<le> 4
                       then add_points 3
                              (''Large cap stock aligns with your lower risk profile'', []) a
                       else a)
                 else if 5000 < market_cap_crores
                 then (''Mid Cap'',
                       if 4 < r \<and> r < 8
                       then add_points 3
                              (''Mid cap stock aligns with your moderate risk profile'', []) a
                       else a)
                 else (''Small Cap'',
                       if 7 \<le> r
                       then add_points 3
                              (''Small cap stock aligns with your higher risk profile'', []) a
                       else a)))
      else (''Unknown'', a))"

text \<open>
  \<open>sector_sentiment\<close> maps sector names to records with a \<open>sentiment\<close> field. A sector
  that is not a string is no key of it.
\<close>

definition sector_signal :: "(string \<times> pydict) list \<Rightarrow> pyval \<Rightarrow> acc \<Rightarrow> acc" where
  "sector_signal sector_sentiment sector a =
     (case sector of
        VStr s \<Rightarrow>
          (case map_of sector_sentiment s of
             None \<Rightarrow> a
           | Some sector_sent \<Rightarrow>
               if dict_get sector_sent ''sentiment'' = VStr ''positive''
               then add_points 2 (''Positive sentiment for {sector} sector'', [sector]) a
               else if dict_get sector_sent ''sentiment'' = VStr ''neutral''
               then add_points 1 (''Neutral sentiment for {sector} sector'', [sector]) a
               else a)
      | _ \<Rightarrow> a)"

definition complete_data_bonus :: "pydict \<Rightarrow> acc \<Rightarrow> acc" where
  "complete_data_bonus fund a =
     (if list_all (\<lambda>key. map_of fund key \<noteq> None \<and> dict_get fund key \<noteq> VNone)
           [''pe_ratio'', ''roe'', ''debt_to_equity'', ''eps'']
      then add_points 1 (''Complete fundamental analysis available'', []) a
      else a)"

record fundamental_entry =
  fe_symbol :: string
  fe_name :: pyval
  fe_sector :: pyval
  fe_market_cap_category :: string
  fe_score :: rat
  fe_reasons :: "reason list"

text \<open>The body of the first loop for one symbol with a non-empty record \<open>fund\<close>.\<close>

definition fundamental_score ::
  "(string \<Rightarrow> rat option) \<Rightarrow> profile \<Rightarrow> (string \<times> pydict) list \<Rightarrow> string \<Rightarrow> pydict
     \<Rightarrow> fundamental_entry" where
  "fundamental_score pf p sector_sentiment symbol fund =
     (let a = (0, []);
          a = pe_signal pf fund a;
          a = industry_pe_signal pf fund a;
          a = roe_signal pf fund a;
          a = debt_to_equity_signal pf fund a;
          a = eps_signal pf fund a;
          a = dividend_yield_signal pf fund a;
          a = profit_growth_signal pf fund a;
          (market_cap_category, a) = market_cap_signal pf p fund a;
          sector = dict_get_default fund ''sector'' (VStr ''Unknown'');
          a = sector_signal sector_sentiment sector a;
          a = complete_data_bonus fund a
      in \<lparr> fe_symbol = symbol,
           fe_name = dict_get_default fund ''name'' (VStr symbol),
           fe_sector = sector,
           fe_market_cap_category = market_cap_category,
           fe_score = fst a,
           fe_reasons = snd a \<rparr>)"

text \<open>
  The first loop over \<open>valid_stocks\<close>, filling the dictionary \<open>fundamental_scores\<close>; a
  symbol whose record is empty is passed over.
\<close>

definition fundamental_step ::
  "(string \<Rightarrow> rat option) \<Rightarrow> profile \<Rightarrow> (string \<times> pydict) list \<Rightarrow> (string \<times> pydict) list
     \<Rightarrow> (string \<times> fundamental_entry) list \<Rightarrow> string \<Rightarrow> (string \<times> fundamental_entry) list" where
  "fundamental_step pf p sector_sentiment fundamental_data fundamental_scores symbol =
     (let fund = (case map_of fundamental_data symbol of None \<Rightarrow> [] | Some f \<Rightarrow> f)
      in if fund = [] then fundamental_scores
         else AList.update symbol (fundamental_score pf p sector_sentiment symbol fund)
                fundamental_scores)"

text \<open>\<open>sorted(xs, key=score, reverse=True)\<close>: descending and stable.\<close>

definition sorted_by_score_desc :: "('a \<Rightarrow> rat) \<Rightarrow> 'a list \<Rightarrow> 'a list" where
  "sorted_by_score_desc score xs = sort_key (\<lambda>x. - score x) xs"

definition top_fundamental_stocks ::
  "(string \<Rightarrow> rat option) \<Rightarrow> profile \<Rightarrow> (string \<times> pydict) list \<Rightarrow> (string \<times> pydict) list
     \<Rightarrow> string list \<Rightarrow> fundamental_entry list" where
  "top_fundamental_stocks pf p sector_sentiment fundamental_data valid_stocks =
     take 25 (sorted_by_score_desc fe_score
       (map snd (foldl (fundamental_step pf p sector_sentiment fundamental_data) [] valid_stocks)))"

section \<open>Stock scorer: technical phase\<close>

text \<open>
  The second loop has one \<open>try\<close> around the whole body and no handler per signal: an
  exception raised by any conversion or comparison reaches
  \<open>except Exception: ... continue\<close>, and the symbol gets no entry in \<open>stock_scores\<close>.
  A signal is therefore a function into \<open>py_error + acc\<close>, and \<open>bind\<close> sequences them.
\<close>

definition bind :: "py_error + 'a \<Rightarrow> ('a \<Rightarrow> py_error + 'b) \<Rightarrow> py_error + 'b" where
  "bind m f = (case m of Inl e \<Rightarrow> Inl e | Inr x \<Rightarrow> f x)"

text \<open>\<open>v > 0\<close> and \<open>v < 0\<close> for a dynamically typed \<open>v\<close>.\<close>

fun py_gt_zero :: "pyval \<Rightarrow> py_error + bool" where
  "py_gt_zero (VNum q) = Inr (0 < q)"
| "py_gt_zero v = Inl TypeError"

fun py_lt_zero :: "pyval \<Rightarrow> py_error + bool" where
  "py_lt_zero (VNum q) = Inr (q < 0)"
| "py_lt_zero v = Inl TypeError"

definition ma50_signal :: "(string \<Rightarrow> rat option) \<Rightarrow> pydict \<Rightarrow> acc \<Rightarrow> py_error + acc" where
  "ma50_signal pf tech a =
     (if dict_get tech ''price_to_ma50'' \<noteq> VNone then
        bind (py_float pf (dict_get tech ''price_to_ma50'')) (\<lambda>price_to_ma50.
          Inr (if 11 / 10 < price_to_ma50
               then add_points 3 (''Very strong bullish trend (price 10% above 50-day MA)'', []) a
               else if 105 / 100 < price_to_ma50
               then add_points 2 (''Strong bullish trend (price 5% above 50-day MA)'', []) a
               else if 1 < price_to_ma50
               then add_points 1 (''Price above 50-day moving average'', []) a
               else a))
      else Inr a)"

definition ma200_signal :: "(string \<Rightarrow> rat option) \<Rightarrow> pydict \<Rightarrow> acc \<Rightarrow> py_error + acc" where
  "ma200_signal pf tech a =
     (if dict_get tech ''price_to_ma200'' \<noteq> VNone then
        bind (py_float pf (dict_get tech ''price_to_ma200'')) (\<lambda>price_to_ma200.
          Inr (if 12 / 10 < price_to_ma200
               then add_points 4
                      (''Exceptional long-term uptrend (price 20% above 200-day MA)'', []) a
               else if 11 / 10 < price_to_ma200
               then add_points 3
                      (''Strong long-term uptrend (price 10% above 200-day MA)'', []) a
               else if 1 < price_to_ma200
               then add_points 2 (''Price above 200-day moving average (bullish)'', []) a
               else a))
      else Inr a)"

definition rsi_signal :: "(string \<Rightarrow> rat option) \<Rightarrow> pydict \<Rightarrow> acc \<Rightarrow> py_error + acc" where
  "rsi_signal pf tech a =
     (if dict_get tech ''rsi'' \<noteq> VNone then
        bind (py_float pf (dict_get tech ''rsi'')) (\<lambda>rsi.
          Inr (if 45 \<le> rsi \<and> rsi \<le> 55
               then add_points 2 (''RSI in optimal neutral zone ({rsi:.2f})'', [VNum rsi]) a
               else if 55 < rsi \<and> rsi < 65
               then add_points 3
                      (''RSI showing strength without overheating ({rsi:.2f})'', [VNum rsi]) a
               else if 65 \<le> rsi \<and> rsi < 70
               then add_points 1 (''RSI showing strength ({rsi:.2f})'', [VNum rsi]) a
               else if 70 \<le> rsi
               then add_points (- 1) (''RSI in overbought territory ({rsi:.2f})'', [VNum rsi]) a
               else if 30 < rsi \<and> rsi \<le> 40
               then add_points 1
                      (''RSI in potential accumulation zone ({rsi:.2f})'', [VNum rsi]) a
               else if rsi \<le> 30
               then add_points (1 / 2)
                      (''RSI in oversold territory - potential bounce ({rsi:.2f})'', [VNum rsi]) a
               else a))
      else Inr a)"

definition macd_signal :: "(string \<Rightarrow> rat option) \<Rightarrow> pydict \<Rightarrow> acc \<Rightarrow> py_error + acc" where
  "macd_signal pf tech a =
     (if dict_get tech ''macd'' \<noteq> VNone \<and> dict_get tech ''macd_signal'' \<noteq> VNone then
        bind (py_float pf (dict_get tech ''macd'')) (\<lambda>macd.
        bind (py_float pf (dict_get tech ''macd_signal'')) (\<lambda>signal.
        bind (if 0 < macd \<and> signal < macd
              then py_gt_zero (dict_get_default tech ''macd_histogram'' (VNum 0))
              else Inr False) (\<lambda>strong.
        let a = (if strong
                 then add_points 3
                        (''Strong MACD bullish signal (positive and above signal line)'', []) a
                 else if signal < macd
                 then add_points 2 (''MACD above signal line (bullish)'', []) a
                 else add_points (- (1 / 2)) (''MACD below signal line (bearish)'', []) a)
        in
        bind (py_gt_zero (dict_get_default tech ''macd_histogram'' (VNum 0))) (\<lambda>positive.
        bind (if positive
              then py_lt_zero (dict_get_default tech ''macd_histogram_prev'' (VNum 0))
              else Inr False) (\<lambda>crossover.
        Inr (if crossover
             then add_points 3 (''Recent MACD bullish crossover (strong buy signal)'', []) a
             else a))))))
      else Inr a)"

definition volume_signal :: "(string \<Rightarrow> rat option) \<Rightarrow> pydict \<Rightarrow> acc \<Rightarrow> py_error + acc" where
  "volume_signal pf tech a =
     (if dict_get tech ''volume_change'' \<noteq> VNone then
        bind (py_float pf (dict_get tech ''volume_change'')) (\<lambda>volume_change.
          Inr (if 2 < volume_change
               then add_points 2
                      (''Very high trading volume ({volume_change:.2f}x average)'',
                       [VNum volume_change]) a
               else if 15 / 10 < volume_change
               then add_points 1
                      (''Higher than average volume ({volume_change:.2f}x)'',
                       [VNum volume_change]) a
               else a))
      else Inr a)"

definition day_change_signal :: "(string \<Rightarrow> rat option) \<Rightarrow> pydict \<Rightarrow> acc \<Rightarrow> py_error + acc" where
  "day_change_signal pf tech a =
     (if dict_get tech ''day_change'' \<noteq> VNone then
        bind (py_float pf (dict_get tech ''day_change'')) (\<lambda>day_change.
          Inr (if 3 < day_change
               then add_points 2
                      (''Strong positive momentum (up {day_change:.2f}% today)'',
                       [VNum day_change]) a
               else if 1 < day_change
               then add_points 1
                      (''Positive momentum (up {day_change:.2f}% today)'', [VNum day_change]) a
               else a))
      else Inr a)"

definition volatility_signal ::
  "(string \<Rightarrow> rat option) \<Rightarrow> profile \<Rightarrow> pydict \<Rightarrow> acc \<Rightarrow> py_error + acc" where
  "volatility_signal pf p tech a =
     (if dict_get tech ''volatility'' \<noteq> VNone then
        bind (py_float pf (dict_get tech ''volatility'')) (\<lambda>volatility.
          let r = risk_tolerance p
          in Inr (if 8 \<le> r \<and> 30 < volatility
                  then add_points 1
                         (''High volatility aligned with your risk profile ({volatility:.2f}%)'',
                          [VNum volatility]) a
                  else if 4 \<le> r \<and> r \<le> 7 \<and> 15 \<le> volatility \<and> volatility \<le> 30
                  then add_points 1
                         (''Moderate volatility aligned with your risk profile ({volatility:.2f}%)'',
                          [VNum volatility]) a
                  else if r \<le> 3 \<and> volatility < 15
                  then add_points 1
                         (''Low volatility aligned with your risk profile ({volatility:.2f}%)'',
                          [VNum volatility]) a
                  else a))
      else Inr a)"

record stock_entry =
  se_symbol :: string
  se_name :: pyval
  se_sector :: pyval
  se_market_cap_category :: string
  se_score :: rat
  se_current_price :: pyval
  se_pe_ratio :: pyval
  se_dividend_yield :: pyval
  se_reasons :: "reason list"

text \<open>
  The body of the second loop for one fundamental candidate \<open>stock\<close> with a non-empty
  technical record \<open>tech\<close>; \<open>Inl\<close> is the exception that makes the loop \<open>continue\<close>.
\<close>

definition technical_score ::
  "(string \<Rightarrow> rat option) \<Rightarrow> profile \<Rightarrow> (string \<times> pydict) list \<Rightarrow> fundamental_entry \<Rightarrow> pydict
     \<Rightarrow> py_error + stock_entry" where
  "technical_score pf p fundamental_data stock tech =
     bind (ma50_signal pf tech (fe_score stock, fe_reasons stock)) (\<lambda>a.
     bind (ma200_signal pf tech a) (\<lambda>a.
     bind (rsi_signal pf tech a) (\<lambda>a.
     bind (macd_signal pf tech a) (\<lambda>a.
     bind (volume_signal pf tech a) (\<lambda>a.
     bind (day_change_signal pf tech a) (\<lambda>a.
     bind (volatility_signal pf p tech a) (\<lambda>a.
       let fund = (case map_of fundamental_data (fe_symbol stock) of None \<Rightarrow> [] | Some f \<Rightarrow> f)
       in Inr \<lparr> se_symbol = fe_symbol stock,
                se_name = fe_name stock,
                se_sector = fe_sector stock,
                se_market_cap_category = fe_market_cap_category stock,
                se_score = fst a,
                se_current_price = dict_get tech ''current_price'',
                se_pe_ratio = dict_get fund ''pe_ratio'',
                se_dividend_yield = dict_get fund ''dividend_yield'',
                se_reasons = snd a \<rparr>)))))))"

definition technical_step ::
  "(string \<Rightarrow> rat option) \<Rightarrow> profile \<Rightarrow> (string \<times> pydict) list \<Rightarrow> (string \<times> pydict) list
     \<Rightarrow> (string \<times> stock_entry) list \<Rightarrow> fundamental_entry \<Rightarrow> (string \<times> stock_entry) list" where
  "technical_step pf p technical_data fundamental_data stock_scores stock =
     (let tech = (case map_of technical_data (fe_symbol stock) of None \<Rightarrow> [] | Some t \<Rightarrow> t)
      in if tech = [] then stock_scores
         else (case technical_score pf p fundamental_data stock tech of
                 Inl _ \<Rightarrow> stock_scores
               | Inr entry \<Rightarrow> AList.update (fe_symbol stock) entry stock_scores))"

section \<open>Stock scorer: ranking and output\<close>

record stock_recommendation =
  sr_symbol :: string
  sr_name :: pyval
  sr_sector :: "string \<times> pyval"
  sr_current_price :: pyval
  sr_pe_ratio :: pyval
  sr_dividend_yield :: pyval
  recommendation_strength :: rat
  sr_reason :: "reason list"
  raw_score :: rat

text \<open>
  The score on the 1..10 scale before it is rounded: \<open>max_possible_score = 25\<close>,
  \<open>min_possible_score = -3\<close>, the boost \<open>1.15\<close>, then the clamp.
\<close>

definition normalized_score :: "rat \<Rightarrow> rat" where
  "normalized_score score =
     (let max_possible_score = 25;
          min_possible_score = - 3;
          n = ((score - min_possible_score) / (max_possible_score - min_possible_score)) * 10;
          n = n * (115 / 100)
      in max 1 (min 10 n))"

text \<open>
  One output record. \<open>sr_reason\<close> holds the reasons that the source joins with
  \<open>"; "\<close>, and \<open>sr_sector\<close> the two parts that it concatenates.
\<close>

definition format_stock :: "stock_entry \<Rightarrow> stock_recommendation" where
  "format_stock stock =
     (let top_reasons = (if 3 \<le> length (se_reasons stock) then take 3 (se_reasons stock)
                         else se_reasons stock);
          market_cap_info = (if se_market_cap_category stock \<noteq> ''Unknown''
                             then se_market_cap_category stock @ '' - '' else []);
          sector_info = (if se_sector stock \<noteq> VStr ''Unknown'' then se_sector stock
                         else VStr ''Diverse Sector'')
      in \<lparr> sr_symbol = se_symbol stock,
           sr_name = se_name stock,
           sr_sector = (market_cap_info, sector_info),
           sr_current_price = se_current_price stock,
           sr_pe_ratio = se_pe_ratio stock,
           sr_dividend_yield = se_dividend_yield stock,
           recommendation_strength = py_round (normalized_score (se_score stock)) 1,
           sr_reason = top_reasons,
           raw_score = se_score stock \<rparr>)"

text \<open>
  \<open>recommend_stocks(profile, stock_data, sentiment_data)\<close>, with
  \<open>stock_data["technical"]\<close>, \<open>stock_data["fundamental"]\<close> and
  \<open>sentiment_data["sector_sentiment"]\<close> as three arguments (a missing one is the empty
  dictionary in the source).
\<close>

definition recommend_stocks ::
  "(string \<Rightarrow> rat option) \<Rightarrow> profile \<Rightarrow> (string \<times> pydict) list \<Rightarrow> (string \<times> pydict) list
     \<Rightarrow> (string \<times> pydict) list \<Rightarrow> stock_recommendation list" where
  "recommend_stocks pf p technical_data fundamental_data sector_sentiment =
     (let valid_stocks = filter (\<lambda>symbol. map_of fundamental_data symbol \<noteq> None)
                           (map fst technical_data)
      in if valid_stocks = [] then []
         else
           (let top_fundamental =
                  top_fundamental_stocks pf p sector_sentiment fundamental_data valid_stocks
            in if top_fundamental = [] then []
               else
                 (let stock_scores =
                        foldl (technical_step pf p technical_data fundamental_data) []
                          top_fundamental;
                      top_stocks = take 8 (sorted_by_score_desc se_score (map snd stock_scores))
                  in if top_stocks = [] then [] else map format_stock top_stocks)))"

section \<open>Mutual fund scorer\<close>

definition add_score :: "rat \<Rightarrow> acc \<Rightarrow> acc" where
  "add_score n a = (fst a + n, snd a)"

definition add_reason :: "reason \<Rightarrow> acc \<Rightarrow> acc" where
  "add_reason r a = (fst a, snd a @ [r])"

definition risk_level_map :: "(string \<times> rat) list" where
  "risk_level_map =
     [(''Very Low'', 1), (''Low'', 3), (''Medium'', 5), (''High'', 8), (''Very High'', 10)]"

text \<open>\<open>risk_level_map.get(v, 5)\<close>; only a string can be a key of the table.\<close>

definition risk_level_value :: "pyval \<Rightarrow> rat" where
  "risk_level_value v =
     (case v of
        VStr s \<Rightarrow> (case map_of risk_level_map s of None \<Rightarrow> 5 | Some n \<Rightarrow> n)
      | _ \<Rightarrow> 5)"

text \<open>
  \<open>fund_risk\<close> of \<open>recommend_mutual_funds\<close>: the rating when the record has one (5 when
  it does not convert), else the risk level through the table, \<open>"Medium"\<close> standing for
  a missing level.
\<close>

definition fund_risk :: "(string \<Rightarrow> rat option) \<Rightarrow> pydict \<Rightarrow> rat" where
  "fund_risk pf fund =
     (if dict_get fund ''risk_rating'' \<noteq> VNone
      then (case py_float pf (dict_get fund ''risk_rating'') of Inl _ \<Rightarrow> 5 | Inr q \<Rightarrow> q)
      else risk_level_value (dict_get_default fund ''risk_level'' (VStr ''Medium'')))"

definition mf_risk_match :: "(string \<Rightarrow> rat option) \<Rightarrow> int \<Rightarrow> pydict \<Rightarrow> rat" where
  "mf_risk_match pf r fund = 10 - \<bar>of_int r - fund_risk pf fund\<bar>"

definition risk_reason :: reason where
  "risk_reason = (''Risk profile aligns well with your tolerance'', [])"

definition mf_risk_signal :: "(string \<Rightarrow> rat option) \<Rightarrow> int \<Rightarrow> pydict \<Rightarrow> acc \<Rightarrow> acc" where
  "mf_risk_signal pf r fund a =
     (let risk_match = mf_risk_match pf r fund;
          a = add_score risk_match a
      in if 7 < risk_match then add_reason risk_reason a else a)"

definition mf_return_signal ::
  "(string \<Rightarrow> rat option) \<Rightarrow> int \<Rightarrow> pydict \<Rightarrow> acc \<Rightarrow> acc" where
  "mf_return_signal pf h fund a =
     (if h \<le> 1 then
        (let a = (if dict_get fund ''one_year_return'' \<noteq> VNone then
                    (case py_float pf (dict_get fund ''one_year_return'') of
                       Inl _ \<Rightarrow> a
                     | Inr one_year_return \<Rightarrow>
                         if 10 < one_year_return
                         then add_points 3
                                (''Strong 1-year return of {one_year_return:.2f}%'',
                                 [VNum one_year_return]) a
                         else if 5 < one_year_return
                         then add_points 2
                                (''Good 1-year return of {one_year_return:.2f}%'',
                                 [VNum one_year_return]) a
                         else a)
                  else a)
         in if fund_risk pf fund < 4
            then add_points 3 (''Low risk suitable for short-term investment'', []) a
            else a)
      else if h \<le> 3 then
        (if dict_get fund ''one_year_return'' \<noteq> VNone
              \<and> dict_get fund ''three_year_return'' \<noteq> VNone then
           (case py_float pf (dict_get fund ''one_year_return'') of
              Inl _ \<Rightarrow> a
            | Inr one_year_return \<Rightarrow>
                (case py_float pf (dict_get fund ''three_year_return'') of
                   Inl _ \<Rightarrow> a
                 | Inr three_year_return \<Rightarrow>
                     (let avg_return = (one_year_return + three_year_return) / 2
                      in if 12 < avg_return
                         then add_points 3
                                (''Strong avg return of {avg_return:.2f}% over 1-3 years'',
                                 [VNum avg_return]) a
                         else if 8 < avg_return
                         then add_points 2
                                (''Good avg return of {avg_return:.2f}% over 1-3 years'',
                                 [VNum avg_return]) a
                         else a)))
         else a)
      else
        (if dict_get fund ''three_year_return'' \<noteq> VNone
              \<and> dict_get fund ''five_year_return'' \<noteq> VNone then
           (case py_float pf (dict_get fund ''three_year_return'') of
              Inl _ \<Rightarrow> a
            | Inr three_year_return \<Rightarrow>
                (case py_float pf (dict_get fund ''five_year_return'') of
                   Inl _ \<Rightarrow> a
                 | Inr five_year_return \<Rightarrow>
                     (let avg_return = (three_year_return + five_year_return) / 2
                      in if 12 < avg_return
                         then add_points 5
                                (''Excellent avg return of {avg_return:.2f}% over 3-5 years'',
                                 [VNum avg_return]) a
                         else if 9 < avg_return
                         then add_points 3
                                (''Strong avg return of {avg_return:.2f}% over 3-5 years'',
                                 [VNum avg_return]) a
                         else a)))
         else a))"

definition mf_category_signal :: "profile \<Rightarrow> pydict \<Rightarrow> acc \<Rightarrow> acc" where
  "mf_category_signal p fund a =
     (let asset_allocation = determine_asset_allocation p;
          equity_allocation = equity asset_allocation;
          debt_allocation = debt asset_allocation;
          category = dict_get_default fund ''category'' (VStr [])
      in if 60 < equity_allocation \<and> category = VStr ''Equity''
         then add_points 2
                (''Equity fund aligns with your recommended asset allocation'', []) a
         else if 60 < debt_allocation \<and> category = VStr ''Debt''
         then add_points 2 (''Debt fund aligns with your recommended asset allocation'', []) a
         else if 40 \<le> equity_allocation \<and> equity_allocation \<le> 60 \<and> category = VStr ''Hybrid''
         then add_points 3
                (''Hybrid fund perfectly aligns with your balanced allocation'', []) a
         else a)"

definition expense_ratio_signal :: "(string \<Rightarrow> rat option) \<Rightarrow> pydict \<Rightarrow> acc \<Rightarrow> acc" where
  "expense_ratio_signal pf fund a =
     (if dict_get fund ''expense_ratio'' \<noteq> VNone then
        (case py_float pf (dict_get fund ''expense_ratio'') of
           Inl _ \<Rightarrow> a
         | Inr expense_ratio \<Rightarrow>
             if expense_ratio < 1 / 2
             then add_points 2
                    (''Very low expense ratio of {expense_ratio:.2f}%'', [VNum expense_ratio]) a
             else if expense_ratio < 1
             then add_points 1
                    (''Low expense ratio of {expense_ratio:.2f}%'', [VNum expense_ratio]) a
             else a)
      else a)"

definition aum_signal :: "(string \<Rightarrow> rat option) \<Rightarrow> pydict \<Rightarrow> acc \<Rightarrow> acc" where
  "aum_signal pf fund a =
     (if dict_get fund ''aum_crores'' \<noteq> VNone then
        (case py_float pf (dict_get fund ''aum_crores'') of
           Inl _ \<Rightarrow> a
         | Inr aum_crores \<Rightarrow>
             if 5000 < aum_crores
             then add_points 1
                    (''Large fund size of {aum_crores:.2f} crores'', [VNum aum_crores]) a
             else a)
      else a)"

record fund_entry =
  fu_code :: string
  fu_name :: pyval
  fu_category :: pyval
  fu_nav :: pyval
  fu_one_year_return :: pyval
  fu_three_year_return :: pyval
  fu_five_year_return :: pyval
  fu_expense_ratio :: pyval
  fu_score :: rat
  fu_reasons :: "reason list"

text \<open>
  The loop body of \<open>recommend_mutual_funds\<close>. Every conversion has its own handler
  and nothing else can raise on the values of \<open>pyval\<close>, so the body always stores an
  entry.
\<close>

definition fund_score ::
  "(string \<Rightarrow> rat option) \<Rightarrow> profile \<Rightarrow> string \<Rightarrow> pydict \<Rightarrow> fund_entry" where
  "fund_score pf p fund_code fund =
     (let a = (0, []);
          a = mf_risk_signal pf (risk_tolerance p) fund a;
          a = mf_return_signal pf (investment_horizon p) fund a;
          a = mf_category_signal p fund a;
          a = expense_ratio_signal pf fund a;
          a = aum_signal pf fund a
      in \<lparr> fu_code = fund_code,
           fu_name = dict_get fund ''name'',
           fu_category = dict_get fund ''category'',
           fu_nav = dict_get fund ''nav'',
           fu_one_year_return = dict_get fund ''one_year_return'',
           fu_three_year_return = dict_get fund ''three_year_return'',
           fu_five_year_return = dict_get fund ''five_year_return'',
           fu_expense_ratio = dict_get fund ''expense_ratio'',
           fu_score = fst a,
           fu_reasons = snd a \<rparr>)"

record fund_recommendation =
  fr_code :: string
  fr_name :: pyval
  fr_category :: pyval
  fr_nav :: pyval
  fr_expense_ratio :: pyval
  fr_returns :: "pyval \<times> pyval \<times> pyval"
  fr_reason :: "reason list"

definition format_fund :: "fund_entry \<Rightarrow> fund_recommendation" where
  "format_fund fund =
     (let top_reasons = (if 2 \<le> length (fu_reasons fund) then take 2 (fu_reasons fund)
                         else fu_reasons fund)
      in \<lparr> fr_code = fu_code fund,
           fr_name = fu_name fund,
           fr_category = fu_category fund,
           fr_nav = fu_nav fund,
           fr_expense_ratio = fu_expense_ratio fund,
           fr_returns = (fu_one_year_return fund, fu_three_year_return fund,
                         fu_five_year_return fund),
           fr_reason = top_reasons \<rparr>)"

definition recommend_mutual_funds ::
  "(string \<Rightarrow> rat option) \<Rightarrow> profile \<Rightarrow> (string \<times> pydict) list \<Rightarrow> fund_recommendation list" where
  "recommend_mutual_funds pf p mutual_fund_data =
     (let fund_scores =
            foldl (\<lambda>scores (fund_code, fund). AList.update fund_code (fund_score pf p fund_code fund) scores)
              [] mutual_fund_data;
          top_funds = take 7 (sorted_by_score_desc fu_score (map snd fund_scores))
      in map format_fund top_funds)"

section \<open>Commodity scorer\<close>

definition commodity_base_signal :: "string \<Rightarrow> acc \<Rightarrow> acc" where
  "commodity_base_signal commodity_name a =
     (if commodity_name = ''Gold''
      then add_points 5
             (''Gold is a traditional hedge against inflation and market volatility'', []) a
      else if commodity_name = ''Silver''
      then add_points 4 (''Silver offers industrial usage and investment potential'', []) a
      else if py_in ''Oil'' commodity_name
      then add_points 3 (''Energy commodities offer portfolio diversification'', []) a
      else add_points 2
             (''{commodity_name} adds diversification to your portfolio'', [VStr commodity_name]) a)"

definition commodity_day_change_signal ::
  "(string \<Rightarrow> rat option) \<Rightarrow> pydict \<Rightarrow> acc \<Rightarrow> acc" where
  "commodity_day_change_signal pf commodity a =
     (if dict_get commodity ''day_change'' \<noteq> VNone then
        (case py_float pf (dict_get commodity ''day_change'') of
           Inl _ \<Rightarrow> a
         | Inr day_change \<Rightarrow>
             if 1 < day_change
             then add_points 2 (''Showing positive momentum ({day_change:.2f}%)'', [VNum day_change]) a
             else if 0 < day_change
             then add_points 1 (''Slight positive trend ({day_change:.2f}%)'', [VNum day_change]) a
             else if day_change < - 1
             then add_points (- 1) (''Recent downward trend ({day_change:.2f}%)'', [VNum day_change]) a
             else a)
      else a)"

definition commodity_risk_signal :: "int \<Rightarrow> string \<Rightarrow> acc \<Rightarrow> acc" where
  "commodity_risk_signal r commodity_name a =
     (if r \<le> 3 then
        (if commodity_name = ''Gold''
         then add_points 3 (''Gold aligns well with your conservative risk profile'', []) a
         else a)
      else if r \<le> 7 then
        (if commodity_name \<in> set [''Gold'', ''Silver'']
         then add_points 2 (''Precious metals align with your moderate risk profile'', []) a
         else a)
      else
        (if commodity_name \<notin> set [''Gold'', ''Silver'']
         then add_points 2
                (''{commodity_name} offers growth potential matching your higher risk profile'',
                 [VStr commodity_name]) a
         else a))"

definition commodity_horizon_signal :: "int \<Rightarrow> string \<Rightarrow> acc \<Rightarrow> acc" where
  "commodity_horizon_signal h commodity_name a =
     (if h \<le> 2 then
        (if commodity_name = ''Gold''
         then add_points 2 (''Suitable for your shorter investment horizon'', []) a
         else a)
      else if 5 \<le> h then
        (if commodity_name \<in> set [''Copper'', ''Aluminium'', ''Crude Oil'']
         then add_points 2 (''Good for long-term growth with your investment horizon'', []) a
         else a)
      else a)"

definition commodity_allocation_signal :: "rat \<Rightarrow> string \<Rightarrow> acc \<Rightarrow> acc" where
  "commodity_allocation_signal commodity_allocation commodity_name a =
     (if commodity_allocation \<le> 5 then
        (if commodity_name = ''Gold''
         then add_points 1 (''Optimal for small commodity allocation in your portfolio'', []) a
         else a)
      else a)"

text \<open>Truth value of a Python object: \<open>None\<close>, zero and the empty string are false.\<close>

definition truthy :: "pyval \<Rightarrow> bool" where
  "truthy v = (v \<noteq> VNone \<and> v \<noteq> VNum 0 \<and> v \<noteq> VStr [])"

record commodity_entry =
  ce_name :: string
  ce_score :: rat
  ce_current_price :: pyval
  ce_unit :: pyval
  ce_reasons :: "reason list"

definition commodity_score ::
  "(string \<Rightarrow> rat option) \<Rightarrow> profile \<Rightarrow> rat \<Rightarrow> string \<Rightarrow> pydict \<Rightarrow> commodity_entry" where
  "commodity_score pf p commodity_allocation commodity_name commodity =
     (let a = (0, []);
          a = commodity_base_signal commodity_name a;
          a = commodity_day_change_signal pf commodity a;
          a = commodity_risk_signal (risk_tolerance p) commodity_name a;
          a = commodity_horizon_signal (investment_horizon p) commodity_name a;
          a = commodity_allocation_signal commodity_allocation commodity_name a;
          current_price = dict_get_default commodity ''current_price'' (VNum 0);
          current_price = (if \<not> truthy current_price then VNum 0 else current_price);
          unit = dict_get_default commodity ''unit'' (VStr [])
      in \<lparr> ce_name = commodity_name,
           ce_score = fst a,
           ce_current_price = current_price,
           ce_unit = unit,
           ce_reasons = snd a \<rparr>)"

record commodity_recommendation =
  cr_name :: string
  cr_current_price :: pyval
  cr_unit :: pyval
  cr_reason :: "reason list"

definition format_commodity :: "commodity_entry \<Rightarrow> commodity_recommendation" where
  "format_commodity commodity =
     (let top_reasons = (if 2 \<le> length (ce_reasons commodity) then take 2 (ce_reasons commodity)
                         else ce_reasons commodity);
          current_price = (if ce_current_price commodity = VNone then VNum 0
                           else ce_current_price commodity)
      in \<lparr> cr_name = ce_name commodity,
           cr_current_price = current_price,
           cr_unit = ce_unit commodity,
           cr_reason = top_reasons \<rparr>)"

definition recommend_commodities ::
  "(string \<Rightarrow> rat option) \<Rightarrow> profile \<Rightarrow> (string \<times> pydict) list
     \<Rightarrow> commodity_recommendation list" where
  "recommend_commodities pf p commodity_data =
     (let commodity_allocation = commodities (determine_asset_allocation p);
          commodity_scores =
            foldl (\<lambda>scores (commodity_name, commodity).
                     AList.update commodity_name
                       (commodity_score pf p commodity_allocation commodity_name commodity) scores)
              [] commodity_data;
          top_commodities = take 3 (sorted_by_score_desc ce_score (map snd commodity_scores))
      in map format_commodity top_commodities)"

section \<open>SIP scorer\<close>

text \<open>
  \<open>recommend_sip\<close> has no exception handler at all: a \<open>TypeError\<close> raised while a plan
  is scored leaves the function, so every step is a function into a sum with \<open>py_error\<close>.

  The risk-match contribution of one plan: \<open>Some\<close> of the amount added to the score,
  or \<open>None\<close> when the source adds nothing. The risk level is looked at first, the
  rating only when there is no level, and the rating is subtracted as it is.
\<close>

definition sip_risk_match :: "int \<Rightarrow> pydict \<Rightarrow> py_error + rat option" where
  "sip_risk_match r sip =
     (if dict_get sip ''risk_level'' \<noteq> VNone then
        (let sip_risk_numeric = risk_level_value (dict_get sip ''risk_level'')
         in Inr (Some (10 - \<bar>of_int r - sip_risk_numeric\<bar>)))
      else if dict_get sip ''risk_rating'' \<noteq> VNone then
        (case dict_get sip ''risk_rating'' of
           VNum q \<Rightarrow> Inr (Some (10 - \<bar>of_int r - q\<bar>))
         | _ \<Rightarrow> Inl TypeError)
      else Inr None)"

definition sip_risk_signal :: "int \<Rightarrow> pydict \<Rightarrow> acc \<Rightarrow> py_error + acc" where
  "sip_risk_signal r sip a =
     bind (sip_risk_match r sip) (\<lambda>m.
       case m of
         None \<Rightarrow> Inr a
       | Some risk_match \<Rightarrow>
           (let a = add_score risk_match a
            in Inr (if 7 < risk_match then add_reason risk_reason a else a)))"

text \<open>
  \<open>min_duration\<close>: of a string with a dash, \<open>int\<close> of the part before the first dash
  (\<open>pint\<close> is Python's \<open>int\<close> on strings, \<open>None\<close> for its \<open>ValueError\<close>); of a number,
  the number; of any other string, nothing.
\<close>

definition min_duration :: "(string \<Rightarrow> int option) \<Rightarrow> pyval \<Rightarrow> rat option" where
  "min_duration pint recommended_duration =
     (case recommended_duration of
        VStr s \<Rightarrow>
          (if CHR ''-'' \<in> set s
           then map_option of_int (pint (takeWhile (\<lambda>c. c \<noteq> CHR ''-'') s))
           else None)
      | VNum q \<Rightarrow> Some q
      | VNone \<Rightarrow> None)"

definition sip_duration_signal ::
  "(string \<Rightarrow> int option) \<Rightarrow> int \<Rightarrow> pydict \<Rightarrow> acc \<Rightarrow> acc" where
  "sip_duration_signal pint h sip a =
     (if dict_get sip ''recommended_duration'' \<noteq> VNone then
        (case min_duration pint (dict_get sip ''recommended_duration'') of
           None \<Rightarrow> a
         | Some d \<Rightarrow>
             if d \<le> of_int h
             then add_points 3
                    (''Your investment horizon of {investment_horizon} years meets the recommended minimum of {min_duration} years'',
                     [VNum (of_int h), VNum d]) a
             else add_points (- 2)
                    (''Your investment horizon of {investment_horizon} years is less than the recommended minimum of {min_duration} years'',
                     [VNum (of_int h), VNum d]) a)
      else a)"

definition sip_allocation_signal :: "allocation \<Rightarrow> int \<Rightarrow> string \<Rightarrow> acc \<Rightarrow> acc" where
  "sip_allocation_signal asset_allocation r sip_name a =
     (let a = (if py_in ''Equity'' sip_name \<and> 50 < equity asset_allocation
               then add_points 2
                      (''Equity allocation aligns with your asset allocation strategy'', []) a
               else a);
          a = (if py_in ''Balanced'' sip_name
                    \<and> 30 \<le> equity asset_allocation \<and> equity asset_allocation \<le> 70
               then add_points 3
                      (''Balanced fund perfectly suits your moderate asset allocation'', []) a
               else a);
          a = (if py_in ''Debt'' sip_name \<and> 40 < debt asset_allocation
               then add_points 2
                      (''Debt allocation aligns with your asset allocation strategy'', []) a
               else a)
      in if py_in ''ELSS'' sip_name \<or> py_in ''Tax'' sip_name
         then (if 6 \<le> r
               then add_points 2 (''ELSS provides tax benefits under Section 80C'', []) a
               else add_points (- 1)
                      (''ELSS may be too risky for your profile despite tax benefits'', []) a)
         else a)"

text \<open>
  The minimum investment is multiplied and compared as it is; a string there makes the
  comparison with the monthly capacity raise \<open>TypeError\<close>.
\<close>

definition sip_min_investment_signal :: "rat \<Rightarrow> pydict \<Rightarrow> acc \<Rightarrow> py_error + acc" where
  "sip_min_investment_signal recommended_monthly sip a =
     (if dict_get sip ''min_investment'' \<noteq> VNone then
        (case dict_get sip ''min_investment'' of
           VNum m \<Rightarrow>
             Inr (if m * 3 \<le> recommended_monthly
                  then add_points 1
                         (''Your monthly investment capacity easily covers the minimum requirement'',
                          []) a
                  else if recommended_monthly < m
                  then add_points (- 3)
                         (''Minimum investment of {min_investment} exceeds your monthly capacity'',
                          [VNum m]) a
                  else a)
         | _ \<Rightarrow> Inl TypeError)
      else Inr a)"

record sip_entry =
  si_name :: string
  si_risk_level :: pyval
  si_min_investment :: pyval
  si_recommended_duration :: pyval
  si_expected_returns :: pyval
  si_tax_benefits :: pyval
  si_score :: rat
  si_reasons :: "reason list"

definition sip_score ::
  "(string \<Rightarrow> int option) \<Rightarrow> profile \<Rightarrow> rat \<Rightarrow> allocation \<Rightarrow> string \<Rightarrow> pydict
     \<Rightarrow> py_error + sip_entry" where
  "sip_score pint p recommended_monthly asset_allocation sip_name sip =
     bind (sip_risk_signal (risk_tolerance p) sip (0, [])) (\<lambda>a.
       let a = sip_duration_signal pint (investment_horizon p) sip a;
           a = sip_allocation_signal asset_allocation (risk_tolerance p) sip_name a
       in bind (sip_min_investment_signal recommended_monthly sip a) (\<lambda>a.
            Inr \<lparr> si_name = sip_name,
                  si_risk_level = dict_get sip ''risk_level'',
                  si_min_investment = dict_get sip ''min_investment'',
                  si_recommended_duration = dict_get sip ''recommended_duration'',
                  si_expected_returns = dict_get sip ''expected_returns'',
                  si_tax_benefits = dict_get_default sip ''tax_benefits'' (VStr ''No''),
                  si_score = fst a,
                  si_reasons = snd a \<rparr>))"

text \<open>The scoring loop over \<open>sip_data.items()\<close>, stopped by the first exception.\<close>

fun sip_scores ::
  "(string \<Rightarrow> int option) \<Rightarrow> profile \<Rightarrow> rat \<Rightarrow> allocation \<Rightarrow> (string \<times> pydict) list
     \<Rightarrow> (string \<times> sip_entry) list \<Rightarrow> py_error + (string \<times> sip_entry) list" where
  "sip_scores pint p recommended_monthly asset_allocation [] scores = Inr scores"
| "sip_scores pint p recommended_monthly asset_allocation (item # items) scores =
     bind (sip_score pint p recommended_monthly asset_allocation (fst item) (snd item)) (\<lambda>entry.
       sip_scores pint p recommended_monthly asset_allocation items
         (AList.update (fst item) entry scores))"

record sip_recommendation =
  sp_name :: string
  sp_risk_level :: pyval
  monthly_amount :: rat
  sp_min_investment :: pyval
  sp_expected_returns :: pyval
  sp_tax_benefits :: pyval
  sp_reason :: "reason list"

text \<open>
  One output record: the share of the monthly capacity in proportion to the score
  (a fifth when the scores of the selection do not add up to a positive number),
  rounded to hundreds and raised to the plan's minimum.
\<close>

definition format_sip :: "rat \<Rightarrow> rat \<Rightarrow> sip_entry \<Rightarrow> py_error + sip_recommendation" where
  "format_sip recommended_monthly total_allocation sip =
     (let allocation_ratio = (if 0 < total_allocation then si_score sip / total_allocation
                              else 2 / 10);
          suggested_monthly = py_round (recommended_monthly * allocation_ratio) (- 2);
          top_reasons = (if 2 \<le> length (si_reasons sip) then take 2 (si_reasons sip)
                         else si_reasons sip)
      in bind (if truthy (si_min_investment sip)
               then (case si_min_investment sip of
                       VNum m \<Rightarrow> Inr (if suggested_monthly < m then m else suggested_monthly)
                     | _ \<Rightarrow> Inl TypeError)
               else Inr suggested_monthly) (\<lambda>suggested_monthly.
           Inr \<lparr> sp_name = si_name sip,
                 sp_risk_level = si_risk_level sip,
                 monthly_amount = suggested_monthly,
                 sp_min_investment = si_min_investment sip,
                 sp_expected_returns = si_expected_returns sip,
                 sp_tax_benefits = si_tax_benefits sip,
                 sp_reason = top_reasons \<rparr>))"

fun format_sips :: "rat \<Rightarrow> rat \<Rightarrow> sip_entry list \<Rightarrow> py_error + sip_recommendation list" where
  "format_sips recommended_monthly total_allocation [] = Inr []"
| "format_sips recommended_monthly total_allocation (sip # sips) =
     bind (format_sip recommended_monthly total_allocation sip) (\<lambda>r.
     bind (format_sips recommended_monthly total_allocation sips) (\<lambda>rs. Inr (r # rs)))"

definition recommend_sip ::
  "(string \<Rightarrow> int option) \<Rightarrow> profile \<Rightarrow> (string \<times> pydict) list
     \<Rightarrow> py_error + sip_recommendation list" where
  "recommend_sip pint p sip_data =
     (let recommended_monthly = recommended_monthly_investment (calculate_investment_capacity p);
          asset_allocation = determine_asset_allocation p
      in bind (sip_scores pint p recommended_monthly asset_allocation sip_data []) (\<lambda>scores.
           let top_sips = take 5 (sorted_by_score_desc si_score (map snd scores));
               total_allocation = (if top_sips \<noteq> [] then sum_list (map si_score top_sips) else 1)
           in format_sips recommended_monthly total_allocation top_sips))"

section \<open>Example inputs\<close>

text \<open>The profile of the capacity example.\<close>

definition example_profile :: profile where
  "example_profile =
     \<lparr> monthly_income = 50000, monthly_expense = 30000, current_savings = 100000,
       existing_investments = 200000, current_debt = 50000, investment_horizon = 5,
       risk_tolerance = 5 \<rparr>"

text \<open>The fundamental record of the scoring example, and market data built on it.\<close>

definition example_fund :: pydict where
  "example_fund =
     [(''pe_ratio'', VNum 12), (''roe'', VNum 22), (''debt_to_equity'', VNum (1 / 4)),
      (''eps'', VNum 60), (''dividend_yield'', VNum 5), (''profit_growth'', VNum 35)]"

definition example_fundamental :: "(string \<times> pydict) list" where
  "example_fundamental = [(''ABC'', example_fund)]"

definition example_technical :: "(string \<times> pydict) list" where
  "example_technical =
     [(''ABC'', [(''current_price'', VNum 100), (''price_to_ma50'', VNum (12 / 10)),
                 (''rsi'', VNum 50)])]"

text \<open>The same technical record with an \<open>rsi\<close> that is no number.\<close>

definition example_technical_bad_rsi :: "(string \<times> pydict) list" where
  "example_technical_bad_rsi =
     [(''ABC'', [(''current_price'', VNum 100), (''price_to_ma50'', VNum (12 / 10)),
                 (''rsi'', VStr ''N/A'')])]"

text \<open>
  An instance of \<open>pint\<close> for evaluations: an optional sign and decimal digits.
\<close>

fun decimal_int :: "string \<Rightarrow> int option" where
  "decimal_int [] = None"
| "decimal_int (c # cs) =
     (if c = CHR ''-''
      then (if cs = [] then None else map_option (\<lambda>n. - int n) (digits_val 0 cs))
      else if c = CHR ''+''
      then (if cs = [] then None else map_option int (digits_val 0 cs))
      else map_option int (digits_val 0 (c # cs)))"

text \<open>One plan, one fund and one commodity; and a plan whose rating is a text.\<close>

definition example_sips :: "(string \<times> pydict) list" where
  "example_sips =
     [(''Equity Growth SIP'',
       [(''risk_level'', VStr ''High''), (''min_investment'', VNum 1000),
        (''recommended_duration'', VStr ''5-10 years'')])]"

definition example_sips_bad_rating :: "(string \<times> pydict) list" where
  "example_sips_bad_rating =
     [(''Equity Growth SIP'', [(''risk_rating'', VStr ''High''), (''min_investment'', VNum 1000)])]"

definition example_funds :: "(string \<times> pydict) list" where
  "example_funds =
     [(''F1'', [(''name'', VStr ''Index Fund''), (''category'', VStr ''Hybrid''),
                (''risk_level'', VStr ''Medium''), (''expense_ratio'', VStr ''0.4'')])]"

definition example_commodities :: "(string \<times> pydict) list" where
  "example_commodities = [(''Gold'', [(''day_change'', VNum (3 / 2))])]"

section \<open>Asset allocation in double precision\<close>

text \<open>
  Whether the renormalisation of \<open>determine_asset_allocation\<close> changes anything is a
  question about the last bit, so lines 94 to 115 and the rounding of the commodities
  share are modelled a second time with the arithmetic of Python: \<open>int\<close> operations are
  exact, and an operation with a \<open>float\<close> operand converts the other operand to a double
  and rounds its result to the nearest double.

  \<open>fl x\<close> is the double nearest to \<open>x\<close>, a tie going to the even significand:
  \<open>normalise\<close> scales \<open>|x|\<close> by powers of two into \<open>[2^52, 2^53)\<close>, where the doubles
  are the integers. A value outside the range of the normal doubles (below \<open>2^-1022\<close>
  or from \<open>2^1024\<close> on, where Python raises \<open>OverflowError\<close> or computes with
  \<open>inf\<close>) is left as it is.
\<close>

definition pow2 :: "int \<Rightarrow> rat" where
  "pow2 e = (if 0 \<le> e then 2 ^ nat e else 1 / 2 ^ nat (- e))"

fun normalise :: "nat \<Rightarrow> rat \<Rightarrow> int \<Rightarrow> rat \<times> int" where
  "normalise 0 y e = (y, e)"
| "normalise (Suc n) y e =
     (if y < 2 ^ 52 then normalise n (y * 2) (e - 1)
      else if 2 ^ 53 \<le> y then normalise n (y / 2) (e + 1)
      else (y, e))"

definition fl :: "rat \<Rightarrow> rat" where
  "fl x =
     (if x = 0 then 0
      else (case normalise 2200 \<bar>x\<bar> 0 of
              (y, e) \<Rightarrow>
                if 2 ^ 52 \<le> y \<and> y < 2 ^ 53 \<and> - 1074 \<le> e \<and> e \<le> 971
                then sgn x * of_int (round_half_even y) * pow2 e
                else x))"

text \<open>
  A Python number is an \<open>int\<close> or a \<open>float\<close>; \<open>num_val\<close> is its value and
  \<open>to_double\<close> the conversion \<open>float(x)\<close> that a mixed operation applies.
\<close>

datatype pynum = PInt int | PFloat rat

fun num_val :: "pynum \<Rightarrow> rat" where
  "num_val (PInt i) = of_int i"
| "num_val (PFloat x) = x"

fun to_double :: "pynum \<Rightarrow> rat" where
  "to_double (PInt i) = fl (of_int i)"
| "to_double (PFloat x) = x"

fun py_add :: "pynum \<Rightarrow> pynum \<Rightarrow> pynum" where
  "py_add (PInt i) (PInt j) = PInt (i + j)"
| "py_add a b = PFloat (fl (to_double a + to_double b))"

fun py_sub :: "pynum \<Rightarrow> pynum \<Rightarrow> pynum" where
  "py_sub (PInt i) (PInt j) = PInt (i - j)"
| "py_sub a b = PFloat (fl (to_double a - to_double b))"

fun py_mul :: "pynum \<Rightarrow> pynum \<Rightarrow> pynum" where
  "py_mul (PInt i) (PInt j) = PInt (i * j)"
| "py_mul a b = PFloat (fl (to_double a * to_double b))"

text \<open>\<open>a / b\<close>: of two \<open>int\<close>s it is the correctly rounded quotient.\<close>

fun py_truediv :: "pynum \<Rightarrow> pynum \<Rightarrow> pynum" where
  "py_truediv (PInt i) (PInt j) = PFloat (fl (of_int i / of_int j))"
| "py_truediv a b = PFloat (fl (to_double a / to_double b))"

text \<open>
  \<open>min(a, b)\<close> and \<open>max(a, b)\<close> compare the values and return the first argument
  unless the second is strictly smaller (larger).
\<close>

definition py_min :: "pynum \<Rightarrow> pynum \<Rightarrow> pynum" where
  "py_min a b = (if num_val b < num_val a then b else a)"

definition py_max :: "pynum \<Rightarrow> pynum \<Rightarrow> pynum" where
  "py_max a b = (if num_val a < num_val b then b else a)"

text \<open>\<open>horizon_factor = min(investment_horizon / 2, 5)\<close>.\<close>

definition horizon_factor_double :: "int \<Rightarrow> pynum" where
  "horizon_factor_double h = py_min (py_truediv (PInt h) (PInt 2)) (PInt 5)"

text \<open>
  Lines 94 to 109 for a risk tolerance \<open>r\<close>, the horizon factor and the outcome of
  the test \<open>investment_horizon < 3\<close>; \<open>0.7\<close> is the double nearest to 7/10.
\<close>

definition raw_allocation_with :: "int \<Rightarrow> pynum \<Rightarrow> bool \<Rightarrow> pynum \<times> pynum \<times> pynum" where
  "raw_allocation_with r horizon_factor short_horizon =
     (let equity_base = py_min (py_add (PInt 30) (py_mul (PInt r) (PInt 5))) (PInt 90);
          equity_allocation =
            py_min (py_add equity_base (py_mul horizon_factor (PInt 2))) (PInt 90);
          debt_allocation = py_sub (py_sub (PInt 100) equity_allocation) (PInt 5);
          (equity_allocation, debt_allocation) =
             (if short_horizon
              then (let e = py_max (py_mul equity_allocation (PFloat (fl (7 / 10)))) (PInt 20)
                    in (e, py_sub (py_sub (PInt 100) e) (PInt 5)))
              else (equity_allocation, debt_allocation));
          commodity_allocation = PInt 5
      in (equity_allocation, debt_allocation, commodity_allocation))"

definition raw_allocation_double :: "profile \<Rightarrow> pynum \<times> pynum \<times> pynum" where
  "raw_allocation_double p =
     raw_allocation_with (risk_tolerance p) (horizon_factor_double (investment_horizon p))
       (investment_horizon p < 3)"

text \<open>\<open>total = equity_allocation + debt_allocation + commodity_allocation\<close>.\<close>

definition total_double :: "pynum \<times> pynum \<times> pynum \<Rightarrow> pynum" where
  "total_double a = (case a of (e, d, c) \<Rightarrow> py_add (py_add e d) c)"

text \<open>
  Lines 113 to 115; \<open>None\<close> is the \<open>ZeroDivisionError\<close> of a total that is zero.
\<close>

definition renormalise_double ::
  "pynum \<times> pynum \<times> pynum \<Rightarrow> (pynum \<times> pynum \<times> pynum) option" where
  "renormalise_double a =
     (case a of (e, d, c) \<Rightarrow>
        (let total = total_double a
         in if num_val total = 0 then None
            else Some (py_mul (py_truediv e total) (PInt 100),
                       py_mul (py_truediv d total) (PInt 100),
                       py_mul (py_truediv c total) (PInt 100))))"

text \<open>
  \<open>round(x, ndigits)\<close> of a \<open>float\<close> is the double nearest to the decimal rounding of
  its value; of an \<open>int\<close> it is an \<open>int\<close>.
\<close>

fun py_round_double :: "pynum \<Rightarrow> int \<Rightarrow> pynum" where
  "py_round_double (PFloat x) ndigits = PFloat (fl (py_round x ndigits))"
| "py_round_double (PInt i) ndigits = PInt (py_int (py_round (of_int i) ndigits))"

text \<open>The field \<open>"commodities"\<close> of the result: \<open>round(commodity_allocation, 2)\<close>.\<close>

definition commodities_double :: "profile \<Rightarrow> pynum option" where
  "commodities_double p =
     map_option (\<lambda>a. py_round_double (snd (snd a)) 2)
       (renormalise_double (raw_allocation_double p))"

text \<open>
  What is checked of an allocation before the renormalisation: its total is 100, its
  commodity share is the integer 5, and the commodities field comes out as 5.0.
\<close>

definition allocation_ok :: "pynum \<times> pynum \<times> pynum \<Rightarrow> bool" where
  "allocation_ok a =
     (num_val (total_double a) = 100 \<and> snd (snd a) = PInt 5
      \<and> map_option (\<lambda>b. py_round_double (snd (snd b)) 2) (renormalise_double a)
          = Some (PFloat 5))"

text \<open>
  Two more profiles: risk tolerance 1 with a horizon of 2 years, and a risk tolerance
  far below the range 1..10.
\<close>

definition short_horizon_profile :: profile where
  "short_horizon_profile = example_profile \<lparr> investment_horizon := 2, risk_tolerance := 1 \<rparr>"

definition negative_risk_profile :: profile where
  "negative_risk_profile = example_profile \<lparr> risk_tolerance := - 10000000000000000 \<rparr>"

section \<open>Facts about rounding\<close>

lemma floor_rat_numeral_div:
  "\<lfloor>numeral a / numeral b :: rat\<rfloor> = numeral a div numeral b"
  by (metis floor_divide_of_int_eq of_int_numeral)

lemma round_half_even_of_int: "round_half_even (of_int k) = k"
  by (simp add: round_half_even_def)

lemma py_round_hundredths: "py_round (of_int k / 100) 2 = of_int k / 100"
  by (simp add: py_round_def round_half_even_of_int)

lemma py_round_tenths: "py_round (of_int k / 10) 2 = of_int k / 10"
proof -
  have "(of_int k / 10 :: rat) = of_int (10 * k) / 100" by simp
  then show ?thesis by (simp only: py_round_hundredths)
qed

lemma round_half_even_mono:
  assumes "x \<le> y"
  shows "round_half_even x \<le> round_half_even y"
proof (cases "\<lfloor>x\<rfloor> = \<lfloor>y\<rfloor>")
  case True
  with assms show ?thesis
    by (auto simp: round_half_even_def Let_def)
next
  case False
  with assms have "\<lfloor>x\<rfloor> < \<lfloor>y\<rfloor>"
    by (simp add: floor_mono le_neq_trans)
  then have "\<lfloor>x\<rfloor> + 1 \<le> \<lfloor>y\<rfloor>" by simp
  moreover have "round_half_even x \<le> \<lfloor>x\<rfloor> + 1"
    by (simp add: round_half_even_def Let_def)
  moreover have "\<lfloor>y\<rfloor> \<le> round_half_even y"
    by (simp add: round_half_even_def Let_def)
  ultimately show ?thesis by linarith
qed

lemma py_round_mono: "x \<le> y \<Longrightarrow> py_round x 1 \<le> py_round y 1"
  by (simp add: py_round_def divide_right_mono round_half_even_mono)

section \<open>Facts about the allocation\<close>

lemma raw_allocation_total:
  "(case raw_allocation p of (e, d, c) \<Rightarrow> e + d + c) = 100"
  by (simp add: raw_allocation_def Let_def)

lemma renormalise_total_100:
  "e + d + c = 100 \<Longrightarrow> renormalise (e, d, c) = (e, d, c)"
  by (simp add: renormalise_def)

lemma renormalise_raw: "renormalise (raw_allocation p) = raw_allocation p"
  using raw_allocation_total [of p] by (cases "raw_allocation p") (simp add: renormalise_total_100)

lemma raw_allocation_tenths:
  "\<exists>k. raw_allocation p = (of_int k / 10, of_int (950 - k) / 10, 5)"
proof (cases "investment_horizon p < 3")
  case True
  define n where "n = min (min (30 + risk_tolerance p * 5) 90 + min (investment_horizon p) 10) 90"
  have e: "min (of_int (min (30 + risk_tolerance p * 5) 90)
                 + min (of_int (investment_horizon p) / 2) (5 :: rat) * 2) 90 = of_int n"
    unfolding n_def by (simp add: min_def)
  have "max (of_int n * (7 / 10)) (20 :: rat) = of_int (max (7 * n) 200) / 10"
    by (simp add: max_def)
  with True e show ?thesis
    by (auto simp: raw_allocation_def Let_def diff_divide_distrib intro!: exI [of _ "max (7 * n) 200"])
next
  case False
  define n where "n = min (min (30 + risk_tolerance p * 5) 90 + min (investment_horizon p) 10) 90"
  have e: "min (of_int (min (30 + risk_tolerance p * 5) 90)
                 + min (of_int (investment_horizon p) / 2) (5 :: rat) * 2) 90 = of_int n"
    unfolding n_def by (simp add: min_def)
  with False show ?thesis
    by (auto simp: raw_allocation_def Let_def diff_divide_distrib intro!: exI [of _ "10 * n"])
qed

lemma allocation_components:
  "\<exists>k. equity (determine_asset_allocation p) = of_int k / 10
      \<and> debt (determine_asset_allocation p) = of_int (950 - k) / 10
      \<and> commodities (determine_asset_allocation p) = 5"
proof -
  obtain k where k: "raw_allocation p = (of_int k / 10, of_int (950 - k) / 10, 5)"
    using raw_allocation_tenths by blast
  have r: "renormalise (raw_allocation p) = (of_int k / 10, of_int (950 - k) / 10, 5)"
    using renormalise_raw [of p] by (simp only: k)
  have five: "py_round 5 2 = 5"
    using py_round_tenths [of 50] by simp
  have "equity (determine_asset_allocation p) = of_int k / 10"
    by (simp add: determine_asset_allocation_def r Let_def py_round_tenths)
  moreover have "debt (determine_asset_allocation p) = of_int (950 - k) / 10"
    by (simp add: determine_asset_allocation_def r Let_def py_round_tenths del: of_int_diff)
  moreover have "commodities (determine_asset_allocation p) = 5"
    by (simp add: determine_asset_allocation_def r Let_def five)
  ultimately show ?thesis by blast
qed

lemma allocation_sum_exact:
  "equity (determine_asset_allocation p) + debt (determine_asset_allocation p)
     + commodities (determine_asset_allocation p) = 100"
proof -
  obtain k where "equity (determine_asset_allocation p) = of_int k / 10"
    and "debt (determine_asset_allocation p) = of_int (950 - k) / 10"
    and "commodities (determine_asset_allocation p) = 5"
    using allocation_components by blast
  then show ?thesis by (simp add: diff_divide_distrib)
qed

lemma round_half_even_numeral: "round_half_even (numeral n) = numeral n"
  using round_half_even_of_int [of "numeral n"] by simp

lemma py_round_1: "py_round 1 1 = 1"
  by (simp add: py_round_def round_half_even_numeral)

lemma py_round_10: "py_round 10 1 = 10"
  by (simp add: py_round_def round_half_even_numeral)

section \<open>Investment capacity and asset allocation\<close>

text \<open>
  C5. For the example profile (income 50000, expense 30000, savings 100000, investments
  200000, debt 50000, horizon 5, risk 5), \<open>calculate_investment_capacity\<close> returns a
  monthly surplus of 20000 and a debt-to-income ratio of 1, which is above 0.5, so the
  recommended monthly investment is 6000 and the recommended debt payment 14000.
\<close>

theorem capacity_of_example_profile:
  "monthly_surplus (calculate_investment_capacity example_profile) = 20000
   \<and> debt_to_income_ratio (calculate_investment_capacity example_profile) = Finite 1
   \<and> ratio_gt (debt_to_income_ratio (calculate_investment_capacity example_profile)) (1 / 2)
   \<and> recommended_monthly_investment (calculate_investment_capacity example_profile) = 6000
   \<and> debt_payment_recommendation (calculate_investment_capacity example_profile) = 14000"
  by (simp add: calculate_investment_capacity_def example_profile_def)

text \<open>
  C1. For every profile with a risk tolerance between 1 and 10 and a horizon of at
  least 0, the rounded equity, debt and commodities percentages returned by
  \<open>determine_asset_allocation\<close> add up to 100 within 0.01.
\<close>

theorem allocation_sums_to_100:
  "1 \<le> risk_tolerance p \<Longrightarrow> risk_tolerance p \<le> 10 \<Longrightarrow> 0 \<le> investment_horizon p \<Longrightarrow>
     \<bar>equity (determine_asset_allocation p) + debt (determine_asset_allocation p)
        + commodities (determine_asset_allocation p) - 100\<bar> \<le> 1 / 100"
  by (simp add: allocation_sum_exact)

theorem allocation_sums_to_100_witness:
  "1 \<le> risk_tolerance example_profile \<and> risk_tolerance example_profile \<le> 10
   \<and> 0 \<le> investment_horizon example_profile
   \<and> equity (determine_asset_allocation example_profile) = 60
   \<and> \<bar>equity (determine_asset_allocation example_profile)
        + debt (determine_asset_allocation example_profile)
        + commodities (determine_asset_allocation example_profile) - 100\<bar> \<le> 1 / 100"
proof -
  have r1: "1 \<le> risk_tolerance example_profile"
    and r2: "risk_tolerance example_profile \<le> 10"
    and h: "0 \<le> investment_horizon example_profile"
    by (simp_all add: example_profile_def)
  have "raw_allocation example_profile = (60, 35, 5)"
    by (simp add: raw_allocation_def example_profile_def Let_def)
  then have "equity (determine_asset_allocation example_profile) = py_round 60 2"
    by (simp add: determine_asset_allocation_def renormalise_def Let_def)
  also have "\<dots> = 60"
    using py_round_tenths [of 600] by simp
  finally show ?thesis
    using r1 r2 h allocation_sums_to_100 [OF r1 r2 h] by simp
qed

section \<open>Facts about the allocation in double precision\<close>

lemma pow2_powi: "pow2 e = 2 powi e"
  by (simp add: pow2_def power_int_def inverse_eq_divide power_one_over)

lemma pow2_pos: "0 < pow2 e"
  by (simp add: pow2_def)

lemma pow2_step: "pow2 (e - 1) * 2 = pow2 e" "pow2 (e + 1) / 2 = pow2 e"
  by (simp_all add: pow2_powi power_int_diff power_int_add)

lemma normalise_inv: "normalise n y e = (y', e') \<Longrightarrow> y' * pow2 e' = y * pow2 e"
proof (induction n arbitrary: y e)
  case 0
  then show ?case by simp
next
  case (Suc n)
  show ?case
  proof (cases "y < 2 ^ 52")
    case True
    with Suc.prems have "normalise n (y * 2) (e - 1) = (y', e')" by simp
    from Suc.IH [OF this] show ?thesis
      using pow2_step(1) [of e] by (simp add: mult.assoc mult.commute)
  next
    case False
    show ?thesis
    proof (cases "2 ^ 53 \<le> y")
      case True
      with False Suc.prems have "normalise n (y / 2) (e + 1) = (y', e')" by simp
      from Suc.IH [OF this] show ?thesis
        using pow2_step(2) [of e] by (simp add: field_simps)
    next
      case b: False
      with False Suc.prems show ?thesis by simp
    qed
  qed
qed

text \<open>The shape of a rounded value.\<close>

lemma fl_cases:
  assumes "x \<noteq> 0"
  obtains "fl x = x"
  | y e where "y * pow2 e = \<bar>x\<bar>" "2 ^ 52 \<le> y" "y < 2 ^ 53"
      "fl x = sgn x * of_int (round_half_even y) * pow2 e"
proof -
  obtain y e where n: "normalise 2200 \<bar>x\<bar> 0 = (y, e)"
    by (cases "normalise 2200 \<bar>x\<bar> 0")
  from normalise_inv [OF n] have inv: "y * pow2 e = \<bar>x\<bar>"
    by (simp add: pow2_def)
  have eq: "fl x = (if 2 ^ 52 \<le> y \<and> y < 2 ^ 53 \<and> - 1074 \<le> e \<and> e \<le> 971
                   then sgn x * of_int (round_half_even y) * pow2 e else x)"
    unfolding fl_def n using assms by (simp only: if_False prod.case)
  show thesis
  proof (cases "2 ^ 52 \<le> y \<and> y < 2 ^ 53 \<and> - 1074 \<le> e \<and> e \<le> 971")
    case True
    have "fl x = sgn x * of_int (round_half_even y) * pow2 e"
      unfolding eq using True by (rule if_P)
    with inv True that(2) show thesis by blast
  next
    case False
    have "fl x = x" unfolding eq using False by (rule if_not_P)
    with that(1) show thesis by blast
  qed
qed

lemma round_half_even_ge: "of_int k \<le> y \<Longrightarrow> (of_int k :: rat) \<le> of_int (round_half_even y)"
  using round_half_even_mono [of "of_int k" y]
  by (simp only: round_half_even_of_int of_int_le_iff)

lemma fl_ge_5:
  assumes "5 \<le> x"
  shows "5 \<le> fl x"
proof -
  from assms have nz: "x \<noteq> 0" and pos: "0 < x" by simp_all
  from nz show ?thesis
  proof (cases rule: fl_cases)
    case 1
    with assms show ?thesis by simp
  next
    case (2 y e)
    from pos have sg: "sgn x = 1" by simp
    from pos 2(1) have yx: "y * pow2 e = x" by simp
    have fx: "fl x = of_int (round_half_even y) * pow2 e"
      by (simp only: 2(4) sg mult_1)
    show ?thesis
    proof (cases "0 \<le> e")
      case True
      have "(of_int 5 :: rat) \<le> y" using 2(2) by simp
      then have "(of_int 5 :: rat) \<le> of_int (round_half_even y)"
        by (rule round_half_even_ge)
      then have m: "(5 :: rat) \<le> of_int (round_half_even y)" by simp
      from True have "(1 :: rat) \<le> pow2 e" by (simp add: pow2_def)
      moreover from m have "(0 :: rat) \<le> of_int (round_half_even y)" by simp
      ultimately have "(5 :: rat) * 1 \<le> of_int (round_half_even y) * pow2 e"
        using m by (intro mult_mono) simp_all
      then show ?thesis by (simp only: fx mult_1_right)
    next
      case False
      define j where "j = nat (- e)"
      from False have pe: "pow2 e = 1 / 2 ^ j" by (simp add: pow2_def j_def)
      from yx pe have "y = x * 2 ^ j" by (simp add: field_simps)
      with assms have "5 * 2 ^ j \<le> y" by simp
      then have "(of_int (5 * 2 ^ j) :: rat) \<le> y" by simp
      then have "(of_int (5 * 2 ^ j) :: rat) \<le> of_int (round_half_even y)"
        by (rule round_half_even_ge)
      then have "(5 * 2 ^ j :: rat) \<le> of_int (round_half_even y)" by simp
      then have "5 \<le> of_int (round_half_even y) / (2 ^ j :: rat)"
        by (simp add: field_simps)
      then show ?thesis by (simp add: fx pe)
    qed
  qed
qed

lemma fl_of_int:
  assumes "\<bar>k\<bar> < 2 ^ 53"
  shows "fl (of_int k) = of_int k"
proof (cases "k = 0")
  case True
  then show ?thesis by (simp add: fl_def)
next
  case False
  then have "(of_int k :: rat) \<noteq> 0" by simp
  then show ?thesis
  proof (cases rule: fl_cases)
    case 1
    then show ?thesis .
  next
    case (2 y e)
    have ak: "\<bar>of_int k :: rat\<bar> = of_int \<bar>k\<bar>" by simp
    from assms have kb: "(of_int \<bar>k\<bar> :: rat) < 2 ^ 53"
      by (metis of_int_less_iff of_int_numeral of_int_power)
    have e0: "e \<le> 0"
    proof (rule ccontr)
      assume "\<not> e \<le> 0"
      then have "1 \<le> nat e" by simp
      then have "(2::rat) ^ 1 \<le> 2 ^ nat e"
        by (intro power_increasing) simp_all
      with \<open>\<not> e \<le> 0\<close> have p: "2 \<le> pow2 e" by (simp add: pow2_def)
      have y0: "0 \<le> y" using 2(2) by (rule order_trans [rotated]) simp
      have "(2::rat) ^ 52 * 2 \<le> y * pow2 e"
        using 2(2) p y0 by (intro mult_mono) simp_all
      then have "(2 ^ 53 :: rat) \<le> y * pow2 e" by simp
      then have "(2 ^ 53 :: rat) \<le> of_int \<bar>k\<bar>" by (simp only: 2(1) ak)
      with kb show False by (blast dest: leD)
    qed
    define j where "j = nat (- e)"
    from e0 have pe: "pow2 e = 1 / 2 ^ j"
      by (cases "e = 0") (simp_all add: pow2_def j_def)
    have "y * pow2 e = of_int \<bar>k\<bar>" by (simp only: 2(1) ak)
    then have "y = of_int \<bar>k\<bar> * 2 ^ j" by (simp add: pe field_simps)
    then have "y = of_int (\<bar>k\<bar> * 2 ^ j)" by simp
    then have "round_half_even y = \<bar>k\<bar> * 2 ^ j"
      by (simp only: round_half_even_of_int)
    then have "fl (of_int k) = sgn (of_int k) * of_int (\<bar>k\<bar> * 2 ^ j) * (1 / 2 ^ j)"
      by (simp only: 2(4) pe)
    also have "\<dots> = sgn (of_int k) * of_int \<bar>k\<bar>"
      by simp
    also have "\<dots> = of_int k"
      by (simp add: sgn_if abs_if)
    finally show ?thesis .
  qed
qed

lemma fl_numeral: "(numeral k :: int) < 2 ^ 53 \<Longrightarrow> fl (numeral k) = numeral k"
  using fl_of_int [of "numeral k"] by simp

lemma fl_0: "fl 0 = 0" by (simp add: fl_def)

lemma normalise_numeral:
  "normalise (numeral v) y e =
     (if y < 2 ^ 52 then normalise (pred_numeral v) (y * 2) (e - 1)
      else if 2 ^ 53 \<le> y then normalise (pred_numeral v) (y / 2) (e + 1)
      else (y, e))"
  by (simp add: numeral_eq_Suc)

lemmas fl_fraction = fl_def [of "numeral a / numeral b"] fl_def [of "1 / numeral b"] for a b

lemma fl_1: "fl 1 = 1"
  using fl_of_int [of 1] by simp

lemmas double_eval =
  fl_numeral fl_0 fl_1 fl_fraction normalise_numeral pow2_def round_half_even_def Let_def
  floor_rat_numeral_div sgn_if py_min_def py_max_def
  allocation_ok_def raw_allocation_with_def total_double_def renormalise_double_def py_round_def

lemma raw_allocation_short_ok:
  assumes "1 \<le> r" "r \<le> 10" "hf = PFloat 0 \<or> hf = PFloat (1 / 2) \<or> hf = PFloat 1"
  shows "allocation_ok (raw_allocation_with r hf True)"
proof -
  from assms(1,2) have "r = 1 \<or> r = 2 \<or> r = 3 \<or> r = 4 \<or> r = 5 \<or> r = 6 \<or> r = 7 \<or> r = 8
      \<or> r = 9 \<or> r = 10"
    by arith
  with assms(3) show ?thesis
    by (elim disjE) (simp_all add: double_eval)
qed

lemma raw_allocation_long_ok:
  assumes "1 \<le> r" "r \<le> 10"
    "hf = PFloat (3 / 2) \<or> hf = PFloat 2 \<or> hf = PFloat (5 / 2) \<or> hf = PFloat 3
     \<or> hf = PFloat (7 / 2) \<or> hf = PFloat 4 \<or> hf = PFloat (9 / 2) \<or> hf = PInt 5
     \<or> hf = PFloat 5"
  shows "allocation_ok (raw_allocation_with r hf False)"
proof -
  from assms(1,2) have "r = 1 \<or> r = 2 \<or> r = 3 \<or> r = 4 \<or> r = 5 \<or> r = 6 \<or> r = 7 \<or> r = 8
      \<or> r = 9 \<or> r = 10"
    by arith
  with assms(3) show ?thesis
    by (elim disjE) (simp_all add: double_eval)
qed

lemma horizon_factor_small:
  assumes "0 \<le> h" "h \<le> 9"
  shows "horizon_factor_double h = PFloat (of_int h / 2)"
proof -
  from assms have "h = 0 \<or> h = 1 \<or> h = 2 \<or> h = 3 \<or> h = 4 \<or> h = 5 \<or> h = 6 \<or> h = 7
      \<or> h = 8 \<or> h = 9"
    by arith
  then show ?thesis
    by (elim disjE) (simp_all add: horizon_factor_double_def double_eval)
qed

lemma horizon_factor_large:
  assumes "10 \<le> h"
  shows "horizon_factor_double h = PInt 5 \<or> horizon_factor_double h = PFloat 5"
proof -
  from assms have "(5 :: rat) \<le> of_int h / of_int 2" by simp
  then have "5 \<le> fl (of_int h / of_int 2)" by (rule fl_ge_5)
  then show ?thesis
    by (auto simp: horizon_factor_double_def py_min_def)
qed

lemma raw_allocation_double_ok:
  assumes "1 \<le> risk_tolerance p" "risk_tolerance p \<le> 10" "0 \<le> investment_horizon p"
  shows "allocation_ok (raw_allocation_double p)"
proof -
  let ?h = "investment_horizon p"
  consider "?h \<le> 2" | "3 \<le> ?h" "?h \<le> 9" | "10 \<le> ?h" by linarith
  then show ?thesis
  proof cases
    case 1
    with assms(3) have "?h = 0 \<or> ?h = 1 \<or> ?h = 2" by arith
    moreover from 1 assms(3) have "horizon_factor_double ?h = PFloat (of_int ?h / 2)"
      by (intro horizon_factor_small) simp_all
    ultimately have "horizon_factor_double ?h = PFloat 0
        \<or> horizon_factor_double ?h = PFloat (1 / 2) \<or> horizon_factor_double ?h = PFloat 1"
      by auto
    from raw_allocation_short_ok [OF assms(1,2) this] 1 show ?thesis
      by (simp add: raw_allocation_double_def)
  next
    case 2
    then have "?h = 3 \<or> ?h = 4 \<or> ?h = 5 \<or> ?h = 6 \<or> ?h = 7 \<or> ?h = 8 \<or> ?h = 9" by arith
    moreover from 2 have "horizon_factor_double ?h = PFloat (of_int ?h / 2)"
      by (intro horizon_factor_small) simp_all
    ultimately have "horizon_factor_double ?h = PFloat (3 / 2)
        \<or> horizon_factor_double ?h = PFloat 2 \<or> horizon_factor_double ?h = PFloat (5 / 2)
        \<or> horizon_factor_double ?h = PFloat 3 \<or> horizon_factor_double ?h = PFloat (7 / 2)
        \<or> horizon_factor_double ?h = PFloat 4 \<or> horizon_factor_double ?h = PFloat (9 / 2)
        \<or> horizon_factor_double ?h = PInt 5 \<or> horizon_factor_double ?h = PFloat 5"
      by auto
    from raw_allocation_long_ok [OF assms(1,2) this] 2 show ?thesis
      by (simp add: raw_allocation_double_def)
  next
    case 3
    then have "horizon_factor_double ?h = PInt 5 \<or> horizon_factor_double ?h = PFloat 5"
      by (rule horizon_factor_large)
    then have "horizon_factor_double ?h = PFloat (3 / 2)
        \<or> horizon_factor_double ?h = PFloat 2 \<or> horizon_factor_double ?h = PFloat (5 / 2)
        \<or> horizon_factor_double ?h = PFloat 3 \<or> horizon_factor_double ?h = PFloat (7 / 2)
        \<or> horizon_factor_double ?h = PFloat 4 \<or> horizon_factor_double ?h = PFloat (9 / 2)
        \<or> horizon_factor_double ?h = PInt 5 \<or> horizon_factor_double ?h = PFloat 5"
      by blast
    from raw_allocation_long_ok [OF assms(1,2) this] 3 show ?thesis
      by (simp add: raw_allocation_double_def)
  qed
qed

lemmas fl_any =
  fl_def [of "numeral a"] fl_def [of "- numeral a"] fl_def [of "numeral a / numeral b"]
  fl_def [of "- (numeral a / numeral b)"] fl_def [of "1 / numeral b"] fl_def [of 1] for a b

lemmas double_eval_any =
  fl_0 fl_any normalise_numeral pow2_def round_half_even_def Let_def
  floor_rat_numeral_div sgn_if py_min_def py_max_def
  raw_allocation_double_def horizon_factor_double_def commodities_double_def
  raw_allocation_with_def total_double_def renormalise_double_def py_round_def

text \<open>
  C10, as stated: for every profile with an integer risk tolerance and a horizon of at
  least 0 the total before the renormalisation is exactly 100, so the renormalisation is
  the identity, and the returned commodities share is exactly 5. In double precision
  the renormalisation is not the identity: at risk tolerance 1 and horizon 2 the equity
  share is the double 25.9 before it and one unit in the last place more after it. And
  for a risk tolerance far outside 1..10 not even the total is 100: at \<open>-10^16\<close> and
  horizon 5 it is 101, and the returned commodities share is the double 4.95.
\<close>

theorem renormalisation_not_identity_in_doubles:
  "raw_allocation_double short_horizon_profile
     = (PFloat (3645100948402995 / 140737488355328),
        PFloat (2431240111338291 / 35184372088832), PInt 5)
   \<and> renormalise_double (raw_allocation_double short_horizon_profile)
     = Some (PFloat (7290201896805991 / 281474976710656),
             PFloat (2431240111338291 / 35184372088832), PFloat 5)
   \<and> (7290201896805991 / 281474976710656 :: rat) - 3645100948402995 / 140737488355328
     = 1 / 2 ^ 48
   \<and> num_val (total_double (raw_allocation_double negative_risk_profile)) = 101
   \<and> commodities_double negative_risk_profile
     = Some (PFloat (5573204538870989 / 1125899906842624))"
proof -
  have a: "raw_allocation_double short_horizon_profile
     = (PFloat (3645100948402995 / 140737488355328),
        PFloat (2431240111338291 / 35184372088832), PInt 5)"
    by (simp add: short_horizon_profile_def example_profile_def double_eval_any)
  have b: "renormalise_double (PFloat (3645100948402995 / 140737488355328),
        PFloat (2431240111338291 / 35184372088832), PInt 5)
     = Some (PFloat (7290201896805991 / 281474976710656),
             PFloat (2431240111338291 / 35184372088832), PFloat 5)"
    by (simp add: double_eval_any)
  have c: "raw_allocation_double negative_risk_profile
     = (PFloat (- 49999999999999960), PFloat 50000000000000056, PInt 5)"
    by (simp add: negative_risk_profile_def example_profile_def double_eval_any)
  have d: "num_val (total_double (PFloat (- 49999999999999960), PFloat 50000000000000056, PInt 5))
      = 101"
    by (simp add: double_eval_any)
  have e: "map_option (\<lambda>a. py_round_double (snd (snd a)) 2)
       (renormalise_double (PFloat (- 49999999999999960), PFloat 50000000000000056, PInt 5))
     = Some (PFloat (5573204538870989 / 1125899906842624))"
    by (simp add: double_eval_any)
  show ?thesis
    by (simp add: a b c d e commodities_double_def)
qed

text \<open>
  C10, amended: for every profile with a risk tolerance between 1 and 10 and a horizon
  of at least 0, the total of equity, debt and commodity before the renormalisation is
  exactly 100, the debt share being computed as 100 - equity - 5 and the commodity
  share being 5 on both paths, and the returned commodities share is exactly 5.0; this
  in double precision, and in exact arithmetic as well.
\<close>

theorem allocation_total_and_commodities:
  "1 \<le> risk_tolerance p \<Longrightarrow> risk_tolerance p \<le> 10 \<Longrightarrow> 0 \<le> investment_horizon p \<Longrightarrow>
     num_val (total_double (raw_allocation_double p)) = 100
   \<and> fst (snd (raw_allocation_double p))
       = py_sub (py_sub (PInt 100) (fst (raw_allocation_double p))) (PInt 5)
   \<and> snd (snd (raw_allocation_double p)) = PInt 5
   \<and> commodities_double p = Some (PFloat 5)
   \<and> (case raw_allocation p of (e, d, c) \<Rightarrow> e + d + c = 100 \<and> d = 100 - e - 5 \<and> c = 5)
   \<and> commodities (determine_asset_allocation p) = 5"
proof -
  assume r: "1 \<le> risk_tolerance p" "risk_tolerance p \<le> 10" and h: "0 \<le> investment_horizon p"
  from raw_allocation_double_ok [OF r h]
  have "num_val (total_double (raw_allocation_double p)) = 100"
    and "snd (snd (raw_allocation_double p)) = PInt 5"
    and "commodities_double p = Some (PFloat 5)"
    by (simp_all add: allocation_ok_def commodities_double_def)
  moreover have "fst (snd (raw_allocation_double p))
       = py_sub (py_sub (PInt 100) (fst (raw_allocation_double p))) (PInt 5)"
    by (simp add: raw_allocation_double_def raw_allocation_with_def Let_def)
  moreover have "case raw_allocation p of (e, d, c) \<Rightarrow> e + d + c = 100 \<and> d = 100 - e - 5 \<and> c = 5"
    by (simp add: raw_allocation_def Let_def)
  moreover have "commodities (determine_asset_allocation p) = 5"
    using allocation_components [of p] by blast
  ultimately show ?thesis by blast
qed

theorem allocation_total_and_commodities_witness:
  "1 \<le> risk_tolerance example_profile \<and> risk_tolerance example_profile \<le> 10
   \<and> 0 \<le> investment_horizon example_profile
   \<and> raw_allocation_double example_profile = (PFloat 60, PFloat 35, PInt 5)
   \<and> num_val (total_double (raw_allocation_double example_profile)) = 100
   \<and> commodities_double example_profile = Some (PFloat 5)
   \<and> commodities (determine_asset_allocation example_profile) = 5"
proof -
  have r1: "1 \<le> risk_tolerance example_profile"
    and r2: "risk_tolerance example_profile \<le> 10"
    and h: "0 \<le> investment_horizon example_profile"
    by (simp_all add: example_profile_def)
  have "raw_allocation_double example_profile = (PFloat 60, PFloat 35, PInt 5)"
    by (simp add: example_profile_def double_eval_any)
  then show ?thesis
    using r1 r2 h allocation_total_and_commodities [OF r1 r2 h] by simp
qed


section \<open>Profile normalisation\<close>

lemma risk_value_of_text:
  "risk_value [(''risk_tolerance'', VStr s)] = Inr v \<Longrightarrow> v = 3 \<or> v = 5 \<or> v = 8"
  by (auto simp: risk_value_def dict_get_default_def risk_table_def split: option.splits if_splits)

lemma validated_risk_tolerance_range:
  "1 \<le> validated_risk_tolerance r \<and> validated_risk_tolerance r \<le> 10"
  by (simp add: validated_risk_tolerance_def)

text \<open>
  C2. The risk tolerance that profile normalisation produces should always lie in 1..10.
  The normalisation in \<open>generate_stock_recommendations\<close> passes the numeric input 15
  on as 15, where the validation of the interactive profile collection brings the same
  number to 10.
\<close>

theorem risk_value_not_clamped:
  "risk_value [(''risk_tolerance'', VNum 15)] = Inr 15 \<and> validated_risk_tolerance 15 = 10"
  by (simp add: risk_value_def dict_get_default_def py_int_def validated_risk_tolerance_def)

section \<open>Stock scorer\<close>

text \<open>
  C6. The record with \<open>pe_ratio = 12\<close>, \<open>roe = 22\<close>, \<open>debt_to_equity = 0.25\<close>,
  \<open>eps = 60\<close>, \<open>dividend_yield = 5\<close> and \<open>profit_growth = 35\<close> and nothing else scores
  26 in the fundamental phase, whatever the profile and as long as the sentiment data has
  no entry for the sector \<open>"Unknown"\<close>: 4 for the P/E, 5 for the ROE, 4 for the
  debt-to-equity ratio, 4 for the EPS, 3 for the dividend yield, 5 for the profit growth
  and 1 for the complete data, and nothing from the industry P/E, the market cap or the
  sector sentiment.
\<close>

theorem fundamental_score_of_example:
  "map_of sector_sentiment ''Unknown'' = None \<Longrightarrow>
     fst (pe_signal pf example_fund a) = fst a + 4
   \<and> fst (industry_pe_signal pf example_fund a) = fst a
   \<and> fst (roe_signal pf example_fund a) = fst a + 5
   \<and> fst (debt_to_equity_signal pf example_fund a) = fst a + 4
   \<and> fst (eps_signal pf example_fund a) = fst a + 4
   \<and> fst (dividend_yield_signal pf example_fund a) = fst a + 3
   \<and> fst (profit_growth_signal pf example_fund a) = fst a + 5
   \<and> fst (snd (market_cap_signal pf p example_fund a)) = fst a
   \<and> fst (sector_signal sector_sentiment
             (dict_get_default example_fund ''sector'' (VStr ''Unknown'')) a) = fst a
   \<and> fst (complete_data_bonus example_fund a) = fst a + 1
   \<and> fe_score (fundamental_score pf p sector_sentiment symbol example_fund) = 26"
  by (simp add: fundamental_score_def pe_signal_def industry_pe_signal_def roe_signal_def
      debt_to_equity_signal_def eps_signal_def dividend_yield_signal_def
      profit_growth_signal_def market_cap_signal_def sector_signal_def
      complete_data_bonus_def example_fund_def dict_get_def dict_get_default_def present_def
      add_points_def)

theorem fundamental_score_of_example_witness:
  "map_of ([] :: (string \<times> pydict) list) ''Unknown'' = None
   \<and> fe_score (fundamental_score decimal_float example_profile [] ''ABC'' example_fund) = 26"
  using fundamental_score_of_example
          [of "[]" decimal_float "(0, [])" example_profile "''ABC''"]
  by simp

lemma normalized_score_bounds: "1 \<le> normalized_score s \<and> normalized_score s \<le> 10"
  by (simp add: normalized_score_def Let_def)

lemma strength_bounds:
  "1 \<le> py_round (normalized_score s) 1 \<and> py_round (normalized_score s) 1 \<le> 10"
  using py_round_mono [of 1 "normalized_score s"] py_round_mono [of "normalized_score s" 10]
    normalized_score_bounds [of s]
  by (simp add: py_round_1 py_round_10)

lemma recommend_stocks_formatted:
  "r \<in> set (recommend_stocks pf p technical_data fundamental_data sector_sentiment)
     \<Longrightarrow> \<exists>e. r = format_stock e"
  by (auto simp: recommend_stocks_def Let_def split: if_splits)

lemma example_stocks_symbols:
  "map sr_symbol
     (recommend_stocks decimal_float example_profile example_technical example_fundamental [])
   = [''ABC'']"
  by code_simp

text \<open>
  C3. Every recommendation returned by \<open>recommend_stocks\<close> has a strength equal to
  \<open>round(clamp(((raw_score - (-3)) / (25 - (-3))) * 10 * 1.15, 1, 10), 1)\<close>, and the
  strength lies between 1 and 10.
\<close>

theorem recommendation_strength_formula:
  "\<forall>r \<in> set (recommend_stocks pf p technical_data fundamental_data sector_sentiment).
     recommendation_strength r
       = py_round (max 1 (min 10 (((raw_score r - (- 3)) / (25 - (- 3))) * 10 * (115 / 100)))) 1
     \<and> 1 \<le> recommendation_strength r \<and> recommendation_strength r \<le> 10"
proof
  fix r
  assume "r \<in> set (recommend_stocks pf p technical_data fundamental_data sector_sentiment)"
  then obtain e where r: "r = format_stock e"
    using recommend_stocks_formatted by blast
  have "recommendation_strength r = py_round (normalized_score (raw_score r)) 1"
    by (simp add: r format_stock_def Let_def)
  moreover have "normalized_score (raw_score r)
      = max 1 (min 10 (((raw_score r - (- 3)) / (25 - (- 3))) * 10 * (115 / 100)))"
    by (simp add: normalized_score_def Let_def)
  ultimately show "recommendation_strength r
       = py_round (max 1 (min 10 (((raw_score r - (- 3)) / (25 - (- 3))) * 10 * (115 / 100)))) 1
     \<and> 1 \<le> recommendation_strength r \<and> recommendation_strength r \<le> 10"
    using strength_bounds [of "raw_score r"] by simp
qed

theorem recommendation_strength_formula_witness:
  "hd (recommend_stocks decimal_float example_profile example_technical example_fundamental [])
     \<in> set (recommend_stocks decimal_float example_profile example_technical
              example_fundamental [])
   \<and> 1 \<le> recommendation_strength
            (hd (recommend_stocks decimal_float example_profile example_technical
                   example_fundamental []))
   \<and> recommendation_strength
        (hd (recommend_stocks decimal_float example_profile example_technical
               example_fundamental [])) \<le> 10"
proof -
  have "recommend_stocks decimal_float example_profile example_technical example_fundamental []
          \<noteq> []"
    using example_stocks_symbols by auto
  then have "hd (recommend_stocks decimal_float example_profile example_technical
                   example_fundamental [])
               \<in> set (recommend_stocks decimal_float example_profile example_technical
                        example_fundamental [])"
    by simp
  then show ?thesis
    using recommendation_strength_formula
            [of decimal_float example_profile example_technical example_fundamental "[]"]
    by blast
qed

lemma rsi_parse_error_drops:
  "dict_get tech ''rsi'' = VStr s \<Longrightarrow> pf s = None
     \<Longrightarrow> isl (technical_score pf p fundamental_data stock tech)"
  by (simp add: technical_score_def rsi_signal_def bind_def split: sum.splits)

text \<open>
  C4. A field that is present but no number should cost a candidate only that signal.
  The stock \<open>ABC\<close> is in the fundamental selection and is recommended when its \<open>rsi\<close>
  is 50; with the \<open>rsi\<close> \<open>"N/A"\<close> and everything else unchanged the technical phase
  drops it and nothing is recommended. In the SIP scorer a plan whose \<open>risk_rating\<close> is
  a text makes the whole call raise \<open>TypeError\<close>.
\<close>

theorem non_numeric_field_drops_candidate:
  "map fe_symbol
     (top_fundamental_stocks decimal_float example_profile [] example_fundamental [''ABC''])
     = [''ABC'']
   \<and> map sr_symbol
       (recommend_stocks decimal_float example_profile example_technical example_fundamental [])
     = [''ABC'']
   \<and> recommend_stocks decimal_float example_profile example_technical_bad_rsi
       example_fundamental [] = []
   \<and> recommend_sip decimal_int example_profile example_sips_bad_rating = Inl TypeError"
  by code_simp

section \<open>Sizes of the results\<close>

lemma format_sips_length:
  "format_sips m t xs = Inr rs \<Longrightarrow> length rs = length xs"
  by (induction xs arbitrary: rs) (auto simp: bind_def split: sum.splits)

lemma recommend_sip_length:
  "recommend_sip pint p sip_data = Inr recs \<Longrightarrow> length recs \<le> 5"
  by (auto simp: recommend_sip_def Let_def bind_def split: sum.splits dest!: format_sips_length)

lemma example_sips_returns:
  "\<not> isl (recommend_sip decimal_int example_profile example_sips)"
  by code_simp

text \<open>
  C7. For every input, \<open>recommend_stocks\<close> returns at most 8 recommendations,
  \<open>recommend_mutual_funds\<close> at most 7, \<open>recommend_commodities\<close> at most 3, and
  \<open>recommend_sip\<close>, whenever it returns a list, at most 5.
\<close>

theorem recommendation_counts:
  "length (recommend_stocks pf p technical_data fundamental_data sector_sentiment) \<le> 8
   \<and> length (recommend_mutual_funds pf p mutual_fund_data) \<le> 7
   \<and> length (recommend_commodities pf p commodity_data) \<le> 3
   \<and> (\<forall>recs. recommend_sip pint p sip_data = Inr recs \<longrightarrow> length recs \<le> 5)"
proof -
  have "length (recommend_stocks pf p technical_data fundamental_data sector_sentiment) \<le> 8"
    by (simp add: recommend_stocks_def Let_def)
  moreover have "length (recommend_mutual_funds pf p mutual_fund_data) \<le> 7"
    by (simp add: recommend_mutual_funds_def Let_def)
  moreover have "length (recommend_commodities pf p commodity_data) \<le> 3"
    by (simp add: recommend_commodities_def Let_def)
  ultimately show ?thesis
    using recommend_sip_length by blast
qed

theorem recommendation_counts_witness:
  "recommend_sip decimal_int example_profile example_sips
     = Inr (projr (recommend_sip decimal_int example_profile example_sips))
   \<and> length (projr (recommend_sip decimal_int example_profile example_sips)) \<le> 5
   \<and> length (recommend_stocks decimal_float example_profile example_technical
               example_fundamental []) \<le> 8
   \<and> length (recommend_mutual_funds decimal_float example_profile example_funds) \<le> 7
   \<and> length (recommend_commodities decimal_float example_profile example_commodities) \<le> 3"
proof -
  have "recommend_sip decimal_int example_profile example_sips
          = Inr (projr (recommend_sip decimal_int example_profile example_sips))"
    using example_sips_returns by simp
  then show ?thesis
    using recommendation_counts
            [of decimal_float example_profile example_technical example_fundamental "[]"
                example_funds example_commodities decimal_int example_sips]
    by blast
qed

section \<open>Risk match of funds and of SIP plans\<close>





end
